theory Spec2Isabelle
  imports Complex_Main
begin

section \<open>Values, errors and the classifier capability\<close>

text \<open>
  Python values as they reach the pipeline: the results of \<^verbatim>\<open>json.loads\<close> and the cells
  of a pandas table. A float is the real number it denotes, and a literal such as 0.45
  stands for the double it is read as: the pipeline compares floats and converts them
  to and from integers, it never does arithmetic on them. \<open>PNaN\<close> is the float NaN;
  infinite floats are not modelled. Integers are unbounded as Python's are; cells and
  counters are taken to be in the range where numpy's 64-bit integers and doubles hold
  them exactly. A \<open>PDict\<close> lists the items of a dict, each key once.
\<close>

datatype pyval =
    PNone
  | PBool bool
  | PInt int
  | PFloat real
  | PNaN
  | PStr string
  | PList "pyval list"
  | PDict "(string \<times> pyval) list"

text \<open>Every exception the modelled code can raise is a value of this type.\<close>

datatype error =
    FileNotFoundError
  | UnpicklingError
  | JSONDecodeError
  | KeyError
  | TypeError
  | AttributeError
  | ValueError
  | SystemExit string

text \<open>
  One element of the array a classifier's \<^verbatim>\<open>predict\<close> returns. \<open>IntLabel n\<close> is an output
  for which \<^verbatim>\<open>isinstance(raw, (int, np.integer))\<close> holds; \<open>StrLabel s\<close> is any other
  output, given by the text \<^verbatim>\<open>str(raw)\<close> (a text label is its own rendering).
\<close>

datatype raw_label = IntLabel int | StrLabel string

text \<open>
  The classifier capability (a fitted scikit-learn pipeline) is opaque. It scores a
  table row by row: each function takes the column names of the table and the values of
  one row. \<open>predict_proba\<close> is column 1 of the probability matrix.
\<close>

record classifier =
  predict_proba :: "string list \<Rightarrow> pyval list \<Rightarrow> real"
  predict :: "string list \<Rightarrow> pyval list \<Rightarrow> raw_label"

section \<open>ml_rest_server.py: interpreting raw labels\<close>

text \<open>
  \<^verbatim>\<open>str.lower\<close> on the letters A to Z; every other character is kept. (No character
  outside ASCII lower-cases to a letter of "normal" or "dos".)
\<close>

definition lower_char :: "char \<Rightarrow> char" where
  "lower_char c =
     (case map_of (zip ''ABCDEFGHIJKLMNOPQRSTUVWXYZ'' ''abcdefghijklmnopqrstuvwxyz'') c of
        Some d \<Rightarrow> d
      | None \<Rightarrow> c)"

definition lower :: "string \<Rightarrow> string" where
  "lower s = map lower_char s"

fun is_attack_label :: "raw_label \<Rightarrow> bool" where
  "is_attack_label (IntLabel n) = (n = 1)"
| "is_attack_label (StrLabel s) = (lower s \<noteq> ''normal'')"

fun is_dos_label :: "raw_label \<Rightarrow> bool" where
  "is_dos_label (IntLabel n) = (n = 1)"
| "is_dos_label (StrLabel s) = (lower s = ''dos'')"

section \<open>The file system and tables\<close>

text \<open>
  What the pipeline can read and write. An artifact directory maps file names to
  artifacts: a persisted classifier (what \<^verbatim>\<open>joblib.load\<close> returns), a JSON document
  (what \<^verbatim>\<open>json.load\<close> returns) or a file neither loader can read. A log file is its
  list of lines, each one blank, not JSON, or the value \<^verbatim>\<open>json.loads\<close> returns. A
  tabular export is the table \<^verbatim>\<open>pd.read_csv\<close> returns. \<open>written\<close> lists the files
  \<^verbatim>\<open>to_csv\<close> has written and \<open>invoked\<close> the classifier calls made so far, each with
  the table it was given.
\<close>

datatype artifact = Model classifier | Json pyval | Junk

datatype line = Blank | Malformed | Parsed pyval

text \<open>A pandas table: column names and the rows, each with one cell per column.\<close>

record frame =
  columns :: "string list"
  rows :: "pyval list list"

definition rectangular :: "frame \<Rightarrow> bool" where
  "rectangular df = list_all (\<lambda>r. length r = length (columns df)) (rows df)"

record world =
  artifacts :: "string \<Rightarrow> (string \<Rightarrow> artifact option) option"
  logs :: "string \<Rightarrow> line list option"
  tables :: "string \<Rightarrow> frame option"
  written :: "(string \<times> frame) list"
  invoked :: "(string \<times> frame) list"

section \<open>ml_inference.py: loading the artifacts\<close>

text \<open>\<^verbatim>\<open>open(os.path.join(art_dir, name))\<close>: fails when the directory or the file is absent.\<close>

definition open_artifact :: "world \<Rightarrow> string \<Rightarrow> string \<Rightarrow> error + artifact" where
  "open_artifact w art_dir name =
     (case artifacts w art_dir of
        None \<Rightarrow> Inl FileNotFoundError
      | Some d \<Rightarrow> (case d name of None \<Rightarrow> Inl FileNotFoundError | Some a \<Rightarrow> Inr a))"

definition joblib_load :: "world \<Rightarrow> string \<Rightarrow> string \<Rightarrow> error + classifier" where
  "joblib_load w art_dir name =
     (case open_artifact w art_dir name of
        Inl e \<Rightarrow> Inl e
      | Inr (Model c) \<Rightarrow> Inr c
      | Inr _ \<Rightarrow> Inl UnpicklingError)"

definition json_load :: "world \<Rightarrow> string \<Rightarrow> string \<Rightarrow> error + pyval" where
  "json_load w art_dir name =
     (case open_artifact w art_dir name of
        Inl e \<Rightarrow> Inl e
      | Inr (Json v) \<Rightarrow> Inr v
      | Inr _ \<Rightarrow> Inl JSONDecodeError)"

text \<open>\<^verbatim>\<open>v["threshold"]\<close>: a key lookup in a dict, a TypeError on any other JSON value.\<close>

fun subscript_threshold :: "pyval \<Rightarrow> error + pyval" where
  "subscript_threshold (PDict kvs) =
     (case map_of kvs ''threshold'' of None \<Rightarrow> Inl KeyError | Some t \<Rightarrow> Inr t)"
| "subscript_threshold _ = Inl TypeError"

definition load_threshold :: "world \<Rightarrow> string \<Rightarrow> string \<Rightarrow> error + pyval" where
  "load_threshold w art_dir name =
     (case json_load w art_dir name of Inl e \<Rightarrow> Inl e | Inr v \<Rightarrow> subscript_threshold v)"

definition get_feature_list :: "world \<Rightarrow> string \<Rightarrow> error + pyval" where
  "get_feature_list w art_dir = json_load w art_dir ''features.json''"

text \<open>\<^verbatim>\<open>load_flat_artifacts\<close> returns the tuple (pipe_bin, pipe_tri, th, feats).\<close>

definition load_flat_artifacts ::
  "world \<Rightarrow> string \<Rightarrow> error + (classifier \<times> classifier \<times> pyval \<times> pyval)" where
  "load_flat_artifacts w art_dir =
     (case joblib_load w art_dir ''rf_bin.joblib'' of Inl e \<Rightarrow> Inl e | Inr pb \<Rightarrow>
     (case joblib_load w art_dir ''rf_tri.joblib'' of Inl e \<Rightarrow> Inl e | Inr pt \<Rightarrow>
     (case load_threshold w art_dir ''bin_threshold.json'' of Inl e \<Rightarrow> Inl e | Inr th \<Rightarrow>
     (case get_feature_list w art_dir of Inl e \<Rightarrow> Inl e | Inr fl \<Rightarrow>
      Inr (pb, pt, th, fl)))))"

record hier_artifacts =
  pipe_bin :: classifier
  pipe_dos :: classifier
  t1 :: pyval
  t2 :: pyval
  feats :: pyval

definition load_hier_artifacts :: "world \<Rightarrow> string \<Rightarrow> error + hier_artifacts" where
  "load_hier_artifacts w art_dir =
     (case joblib_load w art_dir ''rf_bin.joblib'' of Inl e \<Rightarrow> Inl e | Inr pb \<Rightarrow>
     (case joblib_load w art_dir ''rf_dos_vs_other.joblib'' of Inl e \<Rightarrow> Inl e | Inr pd \<Rightarrow>
     (case load_threshold w art_dir ''bin_threshold.json'' of Inl e \<Rightarrow> Inl e | Inr th1 \<Rightarrow>
     (case load_threshold w art_dir ''dos_threshold.json'' of Inl e \<Rightarrow> Inl e | Inr th2 \<Rightarrow>
     (case get_feature_list w art_dir of Inl e \<Rightarrow> Inl e | Inr fl \<Rightarrow>
      Inr \<lparr>pipe_bin = pb, pipe_dos = pd, t1 = th1, t2 = th2, feats = fl\<rparr>)))))"

section \<open>Table operations\<close>

text \<open>
  The manifest is whatever JSON value \<^verbatim>\<open>features.json\<close> holds. Where it is used to
  name columns it must be a list of text; any other manifest is reported as a
  TypeError here (what pandas does with it is not modelled).
\<close>

fun names_of_list :: "pyval list \<Rightarrow> string list option" where
  "names_of_list [] = Some []"
| "names_of_list (PStr s # xs) = map_option ((#) s) (names_of_list xs)"
| "names_of_list (_ # xs) = None"

fun names_of :: "pyval \<Rightarrow> string list option" where
  "names_of (PList xs) = names_of_list xs"
| "names_of _ = None"

definition cell :: "string list \<Rightarrow> pyval list \<Rightarrow> string \<Rightarrow> pyval" where
  "cell cols r c = (case map_of (zip cols r) c of Some v \<Rightarrow> v | None \<Rightarrow> PNone)"

text \<open>\<^verbatim>\<open>df[names]\<close>: the named columns in the given order; KeyError when one is absent.\<close>

definition select_columns :: "frame \<Rightarrow> pyval \<Rightarrow> error + frame" where
  "select_columns df fl =
     (case names_of fl of
        None \<Rightarrow> Inl TypeError
      | Some ns \<Rightarrow>
          if list_all (\<lambda>n. n \<in> set (columns df)) ns
          then Inr \<lparr>columns = ns, rows = map (\<lambda>r. map (cell (columns df) r) ns) (rows df)\<rparr>
          else Inl KeyError)"

text \<open>
  A cell-wise update: every cell is replaced by a function of its column name and its
  value. \<^verbatim>\<open>df[c] = f(df[c])\<close>, for a conversion \<open>f\<close> that works cell by cell, is the
  update that changes the cells of column \<open>c\<close> only.
\<close>

definition apply_cells :: "(string \<Rightarrow> pyval \<Rightarrow> pyval) \<Rightarrow> frame \<Rightarrow> frame" where
  "apply_cells g df = df\<lparr>rows := map (\<lambda>r. map2 g (columns df) r) (rows df)\<rparr>"

definition map_column :: "string \<Rightarrow> (pyval \<Rightarrow> pyval) \<Rightarrow> frame \<Rightarrow> frame" where
  "map_column c f df = apply_cells (\<lambda>n v. if n = c then f v else v) df"

text \<open>\<^verbatim>\<open>df[c] = vs\<close>: replaces the column when it exists, appends it otherwise.\<close>

definition set_column :: "string \<Rightarrow> pyval list \<Rightarrow> frame \<Rightarrow> frame" where
  "set_column c vs df =
     (if c \<in> set (columns df)
      then df\<lparr>rows := map2 (\<lambda>r v. map2 (\<lambda>n x. if n = c then v else x) (columns df) r) (rows df) vs\<rparr>
      else \<lparr>columns = columns df @ [c], rows = map2 (\<lambda>r v. r @ [v]) (rows df) vs\<rparr>)"

text \<open>\<^verbatim>\<open>df.empty\<close>: an axis of length 0.\<close>

definition frame_empty :: "frame \<Rightarrow> bool" where
  "frame_empty df = (rows df = [] \<or> columns df = [])"

text \<open>
  \<^verbatim>\<open>pd.DataFrame(rows, columns=names)\<close> for rows of seven cells: with no row any list of
  names is accepted, with rows the names must be seven.
\<close>

definition data_frame :: "pyval list list \<Rightarrow> string list \<Rightarrow> error + frame" where
  "data_frame rs ns =
     (if rs = [] \<or> list_all (\<lambda>r. length r = length ns) rs
      then Inr \<lparr>columns = ns, rows = rs\<rparr>
      else Inl ValueError)"

section \<open>ml_inference.py: type coercion\<close>

text \<open>
  Two pandas operations are parameters of the model: how \<^verbatim>\<open>pd.to_numeric\<close> reads a
  text cell (\<open>NNaN\<close> when it is not a number) and how \<^verbatim>\<open>str\<close> renders a float, a list
  or a dict. Each cell is converted on its own, as in a table of one row; the common
  dtype pandas gives a column of mixed cells is not modelled.
\<close>

datatype number = NInt int | NFloat real | NNaN

record library =
  parse_number :: "string \<Rightarrow> number"
  render :: "pyval \<Rightarrow> string"

definition digit_char :: "nat \<Rightarrow> char" where
  "digit_char n = ''0123456789'' ! (n mod 10)"

fun digits10 :: "nat \<Rightarrow> string" where
  "digits10 n = (if n < 10 then [digit_char n] else digits10 (n div 10) @ [digit_char n])"

declare digits10.simps [simp del]

definition str_int :: "int \<Rightarrow> string" where
  "str_int n = (if n < 0 then CHR ''-'' # digits10 (nat (- n)) else digits10 (nat n))"

text \<open>\<^verbatim>\<open>.astype(str)\<close> on one cell.\<close>

fun astype_str :: "library \<Rightarrow> pyval \<Rightarrow> pyval" where
  "astype_str lib (PStr s) = PStr s"
| "astype_str lib PNone = PStr ''None''"
| "astype_str lib (PBool b) = PStr (if b then ''True'' else ''False'')"
| "astype_str lib (PInt n) = PStr (str_int n)"
| "astype_str lib PNaN = PStr ''nan''"
| "astype_str lib v = PStr (render lib v)"

text \<open>\<^verbatim>\<open>pd.to_numeric(..., errors="coerce")\<close> on one cell.\<close>

fun to_numeric :: "library \<Rightarrow> pyval \<Rightarrow> number" where
  "to_numeric lib (PInt n) = NInt n"
| "to_numeric lib (PFloat r) = NFloat r"
| "to_numeric lib (PBool b) = NInt (if b then 1 else 0)"
| "to_numeric lib (PStr s) = parse_number lib s"
| "to_numeric lib _ = NNaN"

text \<open>numpy's float to int conversion truncates toward zero.\<close>

definition int_of_float :: "real \<Rightarrow> int" where
  "int_of_float r = (if 0 \<le> r then \<lfloor>r\<rfloor> else \<lceil>r\<rceil>)"

text \<open>\<^verbatim>\<open>.fillna(0).astype(int)\<close> and \<^verbatim>\<open>.fillna(0.0).astype(float)\<close>.\<close>

fun fill_int :: "number \<Rightarrow> pyval" where
  "fill_int (NInt n) = PInt n"
| "fill_int (NFloat r) = PInt (int_of_float r)"
| "fill_int NNaN = PInt 0"

fun fill_float :: "number \<Rightarrow> pyval" where
  "fill_float (NInt n) = PFloat (of_int n)"
| "fill_float (NFloat r) = PFloat r"
| "fill_float NNaN = PFloat 0"

definition coerce_column ::
  "string \<Rightarrow> (pyval \<Rightarrow> pyval) \<Rightarrow> frame \<Rightarrow> frame" where
  "coerce_column c f df = (if c \<in> set (columns df) then map_column c f df else df)"

definition ensure_types :: "library \<Rightarrow> frame \<Rightarrow> pyval \<Rightarrow> error + frame" where
  "ensure_types lib df feature_list =
     (let df1 = coerce_column ''proto'' (astype_str lib) df;
          df2 = coerce_column ''service'' (astype_str lib) df1;
          df3 = foldl (\<lambda>d c. coerce_column c (\<lambda>v. fill_int (to_numeric lib v)) d) df2
                  [''spkts'', ''dpkts'', ''sbytes'', ''dbytes''];
          df4 = coerce_column ''dur'' (\<lambda>v. fill_float (to_numeric lib v)) df3
      in select_columns df4 feature_list)"

text \<open>
  What lines 199 to 207 do to one cell, by the name of its column. It is used to state
  the result of \<open>ensure_types\<close> in the proofs.
\<close>

definition coerce_cell :: "library \<Rightarrow> string \<Rightarrow> pyval \<Rightarrow> pyval" where
  "coerce_cell lib n v =
     (if n = ''proto'' \<or> n = ''service'' then astype_str lib v
      else if n = ''spkts'' \<or> n = ''dpkts'' \<or> n = ''sbytes'' \<or> n = ''dbytes''
           then fill_int (to_numeric lib v)
      else if n = ''dur'' then fill_float (to_numeric lib v)
      else v)"

section \<open>ml_inference.py: the log adapters\<close>

text \<open>\<^verbatim>\<open>d.get(key, default)\<close> on the items of a dict.\<close>

definition dict_get :: "(string \<times> pyval) list \<Rightarrow> string \<Rightarrow> pyval \<Rightarrow> pyval" where
  "dict_get kvs k dflt = (case map_of kvs k of Some v \<Rightarrow> v | None \<Rightarrow> dflt)"

text \<open>Python's truth value, for \<^verbatim>\<open>x or "unknown"\<close>.\<close>

fun truthy :: "pyval \<Rightarrow> bool" where
  "truthy PNone = False"
| "truthy (PBool b) = b"
| "truthy (PInt n) = (n \<noteq> 0)"
| "truthy (PFloat r) = (r \<noteq> 0)"
| "truthy PNaN = True"
| "truthy (PStr s) = (s \<noteq> [])"
| "truthy (PList xs) = (xs \<noteq> [])"
| "truthy (PDict kvs) = (kvs \<noteq> [])"

definition or_unknown :: "pyval \<Rightarrow> pyval" where
  "or_unknown v = (if truthy v then v else PStr ''unknown'')"

text \<open>
  The body of the Suricata loop for one parsed line: \<open>Inr None\<close> when the line is skipped
  (\<^verbatim>\<open>continue\<close>), \<open>Inr (Some r)\<close> when the row \<open>r\<close> is appended. Only a dict has a
  \<^verbatim>\<open>get\<close> method, so \<^verbatim>\<open>d.get\<close> and \<^verbatim>\<open>flow.get\<close> raise AttributeError on any other
  value.
\<close>

fun eve_row :: "pyval \<Rightarrow> error + pyval list option" where
  "eve_row (PDict d) =
     (if dict_get d ''event_type'' PNone \<noteq> PStr ''flow'' then Inr None
      else (case dict_get d ''flow'' (PDict []) of
              PDict flow \<Rightarrow>
                Inr (Some [dict_get d ''proto'' (PStr ''unknown''),
                           or_unknown (dict_get d ''app_proto'' (PStr ''unknown'')),
                           dict_get flow ''pkts_toserver'' (PInt 0),
                           dict_get flow ''pkts_toclient'' (PInt 0),
                           dict_get flow ''bytes_toserver'' (PInt 0),
                           dict_get flow ''bytes_toclient'' (PInt 0),
                           dict_get flow ''duration'' (PFloat 0)])
            | _ \<Rightarrow> Inl AttributeError))"
| "eve_row _ = Inl AttributeError"

fun eve_rows :: "line list \<Rightarrow> error + pyval list list" where
  "eve_rows [] = Inr []"
| "eve_rows (Blank # ls) = eve_rows ls"
| "eve_rows (Malformed # ls) = eve_rows ls"
| "eve_rows (Parsed d # ls) =
     (case eve_row d of
        Inl e \<Rightarrow> Inl e
      | Inr None \<Rightarrow> eve_rows ls
      | Inr (Some r) \<Rightarrow> (case eve_rows ls of Inl e \<Rightarrow> Inl e | Inr rs \<Rightarrow> Inr (r # rs)))"




text \<open>The rest of an adapter, after the loop: build the table and coerce it.\<close>

definition features_df :: "library \<Rightarrow> pyval \<Rightarrow> pyval list list \<Rightarrow> error + frame" where
  "features_df lib fl rs =
     (case names_of fl of
        None \<Rightarrow> Inl TypeError
      | Some ns \<Rightarrow> (case data_frame rs ns of Inl e \<Rightarrow> Inl e | Inr df \<Rightarrow> ensure_types lib df fl))"

definition suricata_eve_to_features_df ::
  "library \<Rightarrow> world \<Rightarrow> string \<Rightarrow> string \<Rightarrow> error + frame" where
  "suricata_eve_to_features_df lib w eve_json_path art_dir =
     (case get_feature_list w art_dir of Inl e \<Rightarrow> Inl e | Inr fl \<Rightarrow>
     (case logs w eve_json_path of None \<Rightarrow> Inl FileNotFoundError | Some ls \<Rightarrow>
     (case eve_rows ls of Inl e \<Rightarrow> Inl e | Inr rs \<Rightarrow>
      features_df lib fl rs)))"

fun zeek_row :: "pyval \<Rightarrow> error + pyval list" where
  "zeek_row (PDict d) =
     Inr [dict_get d ''proto'' (PStr ''unknown''),
          or_unknown (dict_get d ''service'' (PStr ''unknown'')),
          dict_get d ''orig_pkts'' (PInt 0),
          dict_get d ''resp_pkts'' (PInt 0),
          dict_get d ''orig_bytes'' (PInt 0),
          dict_get d ''resp_bytes'' (PInt 0),
          dict_get d ''duration'' (PFloat 0)]"
| "zeek_row _ = Inl AttributeError"

fun zeek_rows :: "line list \<Rightarrow> error + pyval list list" where
  "zeek_rows [] = Inr []"
| "zeek_rows (Blank # ls) = zeek_rows ls"
| "zeek_rows (Malformed # ls) = zeek_rows ls"
| "zeek_rows (Parsed d # ls) =
     (case zeek_row d of
        Inl e \<Rightarrow> Inl e
      | Inr r \<Rightarrow> (case zeek_rows ls of Inl e \<Rightarrow> Inl e | Inr rs \<Rightarrow> Inr (r # rs)))"

definition zeek_conn_to_features_df ::
  "library \<Rightarrow> world \<Rightarrow> string \<Rightarrow> string \<Rightarrow> error + frame" where
  "zeek_conn_to_features_df lib w conn_log_path art_dir =
     (case get_feature_list w art_dir of Inl e \<Rightarrow> Inl e | Inr fl \<Rightarrow>
     (case logs w conn_log_path of None \<Rightarrow> Inl FileNotFoundError | Some ls \<Rightarrow>
     (case zeek_rows ls of Inl e \<Rightarrow> Inl e | Inr rs \<Rightarrow>
      features_df lib fl rs)))"

section \<open>ml_inference.py: flat and hierarchical prediction\<close>

definition TRI_LABEL_NAMES :: "int \<Rightarrow> string option" where
  "TRI_LABEL_NAMES = map_of [(0, ''normal''), (1, ''dos''), (2, ''other_attack'')]"

text \<open>The dict a prediction function returns; a key it does not set is \<open>None\<close>.\<close>

record predictions =
  binary_scores :: "real list option"
  binary_labels :: "int list option"
  tri_labels :: "raw_label list option"

definition predict_proba_all :: "classifier \<Rightarrow> frame \<Rightarrow> real list" where
  "predict_proba_all c X = map (predict_proba c (columns X)) (rows X)"

definition predict_all :: "classifier \<Rightarrow> frame \<Rightarrow> raw_label list" where
  "predict_all c X = map (predict c (columns X)) (rows X)"

definition call :: "string \<Rightarrow> frame \<Rightarrow> world \<Rightarrow> world" where
  "call name X w = w\<lparr>invoked := invoked w @ [(name, X)]\<rparr>"

text \<open>
  \<^verbatim>\<open>scores >= t\<close> for a threshold read from JSON: the comparison with a number, False
  against NaN, a TypeError (\<open>None\<close>) for a threshold that is not a number.
\<close>

fun cmp_ge :: "pyval \<Rightarrow> (real \<Rightarrow> bool) option" where
  "cmp_ge (PInt n) = Some (\<lambda>s. of_int n \<le> s)"
| "cmp_ge (PFloat r) = Some (\<lambda>s. r \<le> s)"
| "cmp_ge (PBool b) = Some (\<lambda>s. (if b then 1 else 0) \<le> s)"
| "cmp_ge PNaN = Some (\<lambda>s. False)"
| "cmp_ge _ = None"

definition astype_int :: "bool \<Rightarrow> int" where
  "astype_int b = (if b then 1 else 0)"

text \<open>\<^verbatim>\<open>a[mask]\<close>, \<^verbatim>\<open>X[mask]\<close> and \<^verbatim>\<open>a[mask] = vs\<close> for a boolean mask.\<close>

definition gather :: "bool list \<Rightarrow> 'a list \<Rightarrow> 'a list" where
  "gather m xs = map snd (filter fst (zip m xs))"

definition mask_rows :: "frame \<Rightarrow> bool list \<Rightarrow> frame" where
  "mask_rows X m = X\<lparr>rows := gather m (rows X)\<rparr>"

text \<open>
  The values assigned are computed from the masked rows, one per row, so they are as
  many as the mask has True entries; numpy's shape error cannot arise here.
\<close>

fun scatter :: "bool list \<Rightarrow> 'a list \<Rightarrow> 'a list \<Rightarrow> 'a list" where
  "scatter (True # m) (x # xs) (v # vs) = v # scatter m xs vs"
| "scatter (False # m) (x # xs) vs = x # scatter m xs vs"
| "scatter m xs vs = xs"

text \<open>Lines 144 and 145: the full-length Stage-2 score vector.\<close>

definition s_dos_vector :: "hier_artifacts \<Rightarrow> frame \<Rightarrow> bool list \<Rightarrow> real list" where
  "s_dos_vector art X is_mal =
     scatter is_mal (replicate (length (rows X)) 0)
       (predict_proba_all (pipe_dos art) (mask_rows X is_mal))"

text \<open>Lines 142 to 146: the three-way labels, given the Stage-1 mask.\<close>

definition tri_vector :: "hier_artifacts \<Rightarrow> frame \<Rightarrow> bool list \<Rightarrow> error + int list" where
  "tri_vector art X is_mal =
     (let tri = replicate (length (rows X)) 0 in
      if list_ex id is_mal
      then (let s_dos = s_dos_vector art X is_mal in
            case cmp_ge (t2 art) of
              None \<Rightarrow> Inl TypeError
            | Some ge2 \<Rightarrow>
                Inr (scatter is_mal tri (map (\<lambda>s. astype_int (ge2 s) + 1) (gather is_mal s_dos))))
      else Inr tri)"

definition predict_hier_from_df ::
  "world \<Rightarrow> frame \<Rightarrow> string \<Rightarrow> (error + predictions) \<times> world" where
  "predict_hier_from_df w df_features art_dir =
     (case load_hier_artifacts w art_dir of Inl e \<Rightarrow> (Inl e, w) | Inr art \<Rightarrow>
     (case select_columns df_features (feats art) of Inl e \<Rightarrow> (Inl e, w) | Inr X \<Rightarrow>
     (let s_bin = predict_proba_all (pipe_bin art) X;
          w1 = call ''pipe_bin'' X w
      in (case cmp_ge (t1 art) of None \<Rightarrow> (Inl TypeError, w1) | Some ge1 \<Rightarrow>
     (let is_mal = map ge1 s_bin;
          w2 = (if list_ex id is_mal then call ''pipe_dos'' (mask_rows X is_mal) w1 else w1)
      in (case tri_vector art X is_mal of Inl e \<Rightarrow> (Inl e, w2) | Inr tri \<Rightarrow>
      (Inr \<lparr>binary_scores = Some s_bin,
            binary_labels = Some (map astype_int is_mal),
            tri_labels = Some (map IntLabel tri)\<rparr>, w2)))))))"

definition predict_from_df ::
  "world \<Rightarrow> frame \<Rightarrow> string \<Rightarrow> string \<Rightarrow> (error + predictions) \<times> world" where
  "predict_from_df w df_features md art_dir =
     (case load_flat_artifacts w art_dir of Inl e \<Rightarrow> (Inl e, w) | Inr (pb, pt, th, fl) \<Rightarrow>
     (case select_columns df_features fl of Inl e \<Rightarrow> (Inl e, w) | Inr X \<Rightarrow>
     (let (r1, w1) =
            (if md = ''binary'' \<or> md = ''both''
             then (case cmp_ge th of
                     None \<Rightarrow> (Inl TypeError, call ''pipe_bin'' X w)
                   | Some ge \<Rightarrow>
                       (Inr (Some (predict_proba_all pb X),
                             Some (map (\<lambda>s. astype_int (ge s)) (predict_proba_all pb X))),
                        call ''pipe_bin'' X w))
             else (Inr (None, None), w))
      in (case r1 of Inl e \<Rightarrow> (Inl e, w1) | Inr (bs, bl) \<Rightarrow>
      if md = ''tri'' \<or> md = ''both''
      then (Inr \<lparr>binary_scores = bs, binary_labels = bl, tri_labels = Some (predict_all pt X)\<rparr>,
            call ''pipe_tri'' X w1)
      else (Inr \<lparr>binary_scores = bs, binary_labels = bl, tri_labels = None\<rparr>, w1)))))"

text \<open>A label as a table cell, and \<^verbatim>\<open>.map(TRI_LABEL_NAMES)\<close>: NaN for a label that is no key.\<close>

fun label_cell :: "raw_label \<Rightarrow> pyval" where
  "label_cell (IntLabel n) = PInt n"
| "label_cell (StrLabel s) = PStr s"

fun final_name :: "raw_label \<Rightarrow> pyval" where
  "final_name (IntLabel n) = (case TRI_LABEL_NAMES n of Some s \<Rightarrow> PStr s | None \<Rightarrow> PNaN)"
| "final_name (StrLabel s) = PNaN"

definition save_predictions_csv ::
  "world \<Rightarrow> frame \<Rightarrow> string \<Rightarrow> string \<Rightarrow> string \<Rightarrow> (error + frame) \<times> world" where
  "save_predictions_csv w df_features out_csv md art_dir =
     (let (r, w1) = (if md = ''flat'' then predict_from_df w df_features ''both'' art_dir
                     else predict_hier_from_df w df_features art_dir)
      in (case r of Inl e \<Rightarrow> (Inl e, w1) | Inr res \<Rightarrow>
     (case (case binary_scores res of
              None \<Rightarrow> Inr df_features
            | Some s \<Rightarrow>
                (case binary_labels res of
                   None \<Rightarrow> Inl KeyError
                 | Some l \<Rightarrow>
                     Inr (set_column ''bin_label'' (map PInt l)
                            (set_column ''bin_prob_mal'' (map PFloat s) df_features))))
      of Inl e \<Rightarrow> (Inl e, w1) | Inr df1 \<Rightarrow>
     (let df_out = (case tri_labels res of
                      None \<Rightarrow> df1
                    | Some t \<Rightarrow>
                        set_column ''final_label'' (map final_name t)
                          (set_column ''tri_label'' (map label_cell t) df1))
      in (Inr df_out, w1\<lparr>written := written w1 @ [(out_csv, df_out)]\<rparr>)))))"

section \<open>classify_flows.py: the command-line tool\<close>

definition load_features_from_csv :: "world \<Rightarrow> string \<Rightarrow> string \<Rightarrow> error + frame" where
  "load_features_from_csv w csv_path art_dir =
     (case get_feature_list w art_dir of Inl e \<Rightarrow> Inl e | Inr fl \<Rightarrow>
     (case tables w csv_path of None \<Rightarrow> Inl FileNotFoundError | Some df_raw \<Rightarrow>
     (case names_of fl of None \<Rightarrow> Inl TypeError | Some ns \<Rightarrow>
      if filter (\<lambda>c. c \<notin> set (columns df_raw)) ns \<noteq> [] then Inl ValueError
      else select_columns df_raw fl)))"

text \<open>
  The parsed command line. One of \<open>data\<close>, \<open>eve\<close>, \<open>zeek\<close> is given; the tool tests
  each with \<^verbatim>\<open>if args.data:\<close>, which an empty path fails too.
\<close>

record args =
  data :: "string option"
  eve :: "string option"
  zeek :: "string option"
  mode :: string
  models :: string
  out :: string

definition given :: "string option \<Rightarrow> bool" where
  "given p = (case p of None \<Rightarrow> False | Some s \<Rightarrow> s \<noteq> [])"

text \<open>Lines 66 to 74 of \<^verbatim>\<open>main\<close>: the adapter chosen by the command line.\<close>

definition load_step :: "library \<Rightarrow> world \<Rightarrow> args \<Rightarrow> error + frame" where
  "load_step lib w a =
     (if given (data a) then load_features_from_csv w (the (data a)) (models a)
      else if given (eve a) then suricata_eve_to_features_df lib w (the (eve a)) (models a)
      else (case zeek a of
              Some p \<Rightarrow> zeek_conn_to_features_df lib w p (models a)
            | None \<Rightarrow> (case get_feature_list w (models a) of
                         Inl e \<Rightarrow> Inl e
                       | Inr fl \<Rightarrow> Inl TypeError)))"

definition main :: "library \<Rightarrow> world \<Rightarrow> args \<Rightarrow> (error + frame) \<times> world" where
  "main lib w a =
     (case load_step lib w a of Inl e \<Rightarrow> (Inl e, w) | Inr df_feats \<Rightarrow>
      if frame_empty df_feats then (Inl (SystemExit ''[ERROR] No flows found to classify.''), w)
      else if mode a = ''hier''
           then save_predictions_csv w df_feats (out a) ''hier'' (models a)
           else save_predictions_csv w df_feats (out a) ''flat'' (models a))"

section \<open>ml_rest_server.py: the single-record runner\<close>

record FlowInput =
  proto :: string
  service :: string
  spkts :: int
  dpkts :: int
  sbytes :: int
  dbytes :: int
  dur :: real

record FlowOutput =
  bin_label :: string
  dos_vs_other_label :: "string option"
  final_label :: string

text \<open>\<^verbatim>\<open>flow.dict()\<close>: the fields in their declared order.\<close>

definition flow_dict :: "FlowInput \<Rightarrow> (string \<times> pyval) list" where
  "flow_dict f =
     [(''proto'', PStr (proto f)), (''service'', PStr (service f)),
      (''spkts'', PInt (spkts f)), (''dpkts'', PInt (dpkts f)),
      (''sbytes'', PInt (sbytes f)), (''dbytes'', PInt (dbytes f)),
      (''dur'', PFloat (dur f))]"

text \<open>
  \<^verbatim>\<open>classify_flow\<close> reads the two models the module loaded at import; here they are
  arguments. \<^verbatim>\<open>pd.DataFrame([row])\<close> is the table of one row whose columns are the keys.
\<close>

definition classify_flow :: "classifier \<Rightarrow> classifier \<Rightarrow> (string \<times> pyval) list \<Rightarrow> FlowOutput" where
  "classify_flow model_bin model_dos row =
     (let bin_raw = predict model_bin (map fst row) (map snd row);
          is_attack = is_attack_label bin_raw
      in if \<not> is_attack
         then \<lparr>bin_label = ''normal'', dos_vs_other_label = None, final_label = ''normal''\<rparr>
         else (let dos_raw = predict model_dos (map fst row) (map snd row);
                   is_dos = is_dos_label dos_raw;
                   lbl = (if is_dos then ''dos'' else ''other_attack'')
               in \<lparr>bin_label = ''attack'', dos_vs_other_label = Some lbl, final_label = lbl\<rparr>))"

definition predict_one :: "classifier \<Rightarrow> classifier \<Rightarrow> FlowInput \<Rightarrow> FlowOutput" where
  "predict_one model_bin model_dos flow = classify_flow model_bin model_dos (flow_dict flow)"

section \<open>Example inputs\<close>

text \<open>
  The seven canonical feature names, in the order of the \<^verbatim>\<open>_ensure_types\<close> docstring and
  of the fields of \<^verbatim>\<open>FlowInput\<close>, and the manifest that lists them.
\<close>

definition feature_names :: "string list" where
  "feature_names = [''proto'', ''service'', ''spkts'', ''dpkts'', ''sbytes'', ''dbytes'', ''dur'']"

definition ex_manifest :: pyval where
  "ex_manifest = PList [PStr ''proto'', PStr ''service'', PStr ''spkts'', PStr ''dpkts'',
                        PStr ''sbytes'', PStr ''dbytes'', PStr ''dur'']"

text \<open>A record as the table of one row the batch runner would be given.\<close>

definition one_row_table :: "FlowInput \<Rightarrow> frame" where
  "one_row_table f = \<lparr>columns = map fst (flow_dict f), rows = [map snd (flow_dict f)]\<rparr>"

text \<open>
  Two test doubles. The Stage-1 double scores a row by its \<open>spkts\<close> and predicts the
  more probable class; the Stage-2 double does the same on \<open>dpkts\<close>.
\<close>

definition ex_bin :: classifier where
  "ex_bin =
     \<lparr>predict_proba = (\<lambda>cols r. case cell cols r ''spkts'' of
                                   PInt n \<Rightarrow> if 100 \<le> n then 9 / 10
                                             else if 5 \<le> n then 2 / 5 else 1 / 20
                                 | _ \<Rightarrow> 0),
      predict = (\<lambda>cols r. case cell cols r ''spkts'' of
                             PInt n \<Rightarrow> IntLabel (if 100 \<le> n then 1 else 0)
                           | _ \<Rightarrow> IntLabel 0)\<rparr>"

definition ex_dos :: classifier where
  "ex_dos =
     \<lparr>predict_proba = (\<lambda>cols r. case cell cols r ''dpkts'' of
                                   PInt n \<Rightarrow> if 50 \<le> n then 4 / 5 else 1 / 5
                                 | _ \<Rightarrow> 0),
      predict = (\<lambda>cols r. case cell cols r ''dpkts'' of
                             PInt n \<Rightarrow> IntLabel (if 50 \<le> n then 1 else 0)
                           | _ \<Rightarrow> IntLabel 0)\<rparr>"

text \<open>A double whose score is exactly one half on every row.\<close>

definition ex_half :: classifier where
  "ex_half = \<lparr>predict_proba = (\<lambda>cols r. 1 / 2), predict = (\<lambda>cols r. IntLabel 1)\<rparr>"

definition threshold_file :: "pyval \<Rightarrow> artifact" where
  "threshold_file t = Json (PDict [(''threshold'', t)])"

definition ex_dir :: "string \<Rightarrow> artifact option" where
  "ex_dir = map_of
     [(''rf_bin.joblib'', Model ex_bin),
      (''rf_dos_vs_other.joblib'', Model ex_dos),
      (''rf_tri.joblib'', Model ex_dos),
      (''bin_threshold.json'', threshold_file (PFloat (3 / 10))),
      (''dos_threshold.json'', threshold_file (PFloat (1 / 2))),
      (''features.json'', Json ex_manifest)]"

text \<open>Both doubles score one half and both thresholds are one half.\<close>

definition half_dir :: "string \<Rightarrow> artifact option" where
  "half_dir = map_of
     [(''rf_bin.joblib'', Model ex_half),
      (''rf_dos_vs_other.joblib'', Model ex_half),
      (''bin_threshold.json'', threshold_file (PFloat (1 / 2))),
      (''dos_threshold.json'', threshold_file (PFloat (1 / 2))),
      (''features.json'', Json ex_manifest)]"

text \<open>Thresholds outside [0,1] or not numeric, and an empty manifest.\<close>

definition odd_dir :: "string \<Rightarrow> artifact option" where
  "odd_dir = map_of
     [(''rf_bin.joblib'', Model ex_bin),
      (''rf_dos_vs_other.joblib'', Model ex_dos),
      (''rf_tri.joblib'', Model ex_dos),
      (''bin_threshold.json'', threshold_file (PInt 7)),
      (''dos_threshold.json'', threshold_file (PStr ''high'')),
      (''features.json'', Json (PList []))]"

text \<open>
  Log lines: the flow event of the specification's scenario, an event of another
  type, and a flow event whose \<open>flow\<close> entry is null.
\<close>

definition scenario_event :: pyval where
  "scenario_event =
     PDict [(''event_type'', PStr ''flow''),
            (''flow'', PDict [(''pkts_toserver'', PInt 10), (''pkts_toclient'', PInt 8),
                              (''bytes_toserver'', PInt 1500), (''bytes_toclient'', PInt 2000),
                              (''duration'', PFloat (45 / 100))])]"

definition dns_event :: pyval where
  "dns_event = PDict [(''event_type'', PStr ''dns''), (''proto'', PStr ''UDP'')]"

definition null_flow_event :: pyval where
  "null_flow_event = PDict [(''event_type'', PStr ''flow''), (''flow'', PNone)]"

definition ex_world :: world where
  "ex_world =
     \<lparr>artifacts = map_of [(''models'', ex_dir), (''half'', half_dir), (''odd'', odd_dir)],
      logs = map_of
        [(''eve.json'', [Parsed dns_event, Malformed, Parsed scenario_event, Blank]),
         (''noflow.json'', [Parsed dns_event, Malformed]),
         (''scenario.json'', [Parsed scenario_event]),
         (''nullflow.json'', [Parsed null_flow_event])],
      tables = map_of [],
      written = [],
      invoked = []\<rparr>"

definition ex_flow :: FlowInput where
  "ex_flow = \<lparr>proto = ''tcp'', service = ''http'', spkts = 10, dpkts = 8,
              sbytes = 1500, dbytes = 2000, dur = 45 / 100\<rparr>"

text \<open>A table of three rows: the flow above, a tiny one and a large one.\<close>

definition ex_table :: frame where
  "ex_table =
     \<lparr>columns = feature_names,
      rows = [[PStr ''tcp'', PStr ''http'', PInt 10, PInt 8, PInt 1500, PInt 2000, PFloat (45 / 100)],
              [PStr ''udp'', PStr ''dns'', PInt 2, PInt 1, PInt 90, PInt 100, PFloat 0],
              [PStr ''tcp'', PStr ''-'', PInt 200, PInt 60, PInt 9000, PInt 100, PFloat 2]]\<rparr>"

text \<open>The bundles the two directories load to, and the batch result on the table.\<close>

definition ex_art :: hier_artifacts where
  "ex_art = \<lparr>pipe_bin = ex_bin, pipe_dos = ex_dos, t1 = PFloat (3 / 10), t2 = PFloat (1 / 2),
             feats = ex_manifest\<rparr>"

definition half_art :: hier_artifacts where
  "half_art = \<lparr>pipe_bin = ex_half, pipe_dos = ex_half, t1 = PFloat (1 / 2), t2 = PFloat (1 / 2),
               feats = ex_manifest\<rparr>"

definition ex_result :: predictions where
  "ex_result = \<lparr>binary_scores = Some [2 / 5, 1 / 20, 9 / 10],
                binary_labels = Some [1, 0, 1],
                tri_labels = Some [IntLabel 1, IntLabel 0, IntLabel 2]\<rparr>"

definition ex_world_after :: world where
  "ex_world_after =
     ex_world\<lparr>invoked :=
       [(''pipe_bin'', ex_table),
        (''pipe_dos'', ex_table\<lparr>rows :=
           [[PStr ''tcp'', PStr ''http'', PInt 10, PInt 8, PInt 1500, PInt 2000, PFloat (45 / 100)],
            [PStr ''tcp'', PStr ''-'', PInt 200, PInt 60, PInt 9000, PInt 100, PFloat 2]]\<rparr>)]\<rparr>"

text \<open>A raw table of one row with cells of the wrong types, and what coercion makes of it.\<close>

definition raw_table :: frame where
  "raw_table =
     \<lparr>columns = feature_names,
      rows = [[PInt 6, PNone, PStr ''many'', PNone, PInt 3, PFloat (5 / 2), PStr ''soon'']]\<rparr>"

definition coerced_table :: frame where
  "coerced_table =
     \<lparr>columns = feature_names,
      rows = [[PStr ''6'', PStr ''None'', PInt 0, PInt 0, PInt 3, PInt 2, PFloat 0]]\<rparr>"

text \<open>The command line \<^verbatim>\<open>--eve noflow.json --out out.csv\<close>.\<close>

definition ex_args :: args where
  "ex_args = \<lparr>data = None, eve = Some ''noflow.json'', zeek = None, mode = ''hier'',
              models = ''models'', out = ''out.csv''\<rparr>"

text \<open>A library double: no text is a number, and every rendering is a question mark.\<close>

definition ex_lib :: library where
  "ex_lib = \<lparr>parse_number = (\<lambda>s. NNaN), render = (\<lambda>v. ''?'')\<rparr>"

section \<open>Properties\<close>

lemma gather_Nil: "gather [] ys = []" "gather m [] = []"
  by (simp_all add: gather_def)

lemma gather_Cons: "gather (b # m) (y # ys) = (if b then y # gather m ys else gather m ys)"
  by (simp add: gather_def)

lemma gather_map: "gather m (map f xs) = map f (gather m xs)"
proof (induction m arbitrary: xs)
  case Nil
  then show ?case by (simp add: gather_Nil)
next
  case (Cons b m)
  then show ?case by (cases xs) (simp_all add: gather_Nil gather_Cons)
qed

lemma gather_mask_filter: "gather (map P xs) xs = filter P xs"
  by (induction xs) (simp_all add: gather_Nil gather_Cons)

lemma scatter_gather_mask:
  "scatter (map P xs) (replicate (length xs) z) (gather (map P xs) (map h xs)) =
   map (\<lambda>r. if P r then h r else z) xs"
  by (induction xs) (simp_all add: gather_Nil gather_Cons)

lemma gather_mask_default:
  "gather (map P xs) (map (\<lambda>r. if P r then h r else z) xs) = gather (map P xs) (map h xs)"
  by (induction xs) (simp_all add: gather_Nil gather_Cons)

lemma list_ex_mask: "list_ex id (map P xs) = (\<exists>x \<in> set xs. P x)"
  by (induction xs) auto

lemma s_dos_vector_eq:
  "s_dos_vector art X (map P (rows X)) =
   map (\<lambda>r. if P r then predict_proba (pipe_dos art) (columns X) r else 0) (rows X)"
  by (simp add: s_dos_vector_def predict_proba_all_def mask_rows_def gather_map [symmetric]
      scatter_gather_mask)

lemma tri_vector_eq:
  assumes "tri_vector art X (map P (rows X)) = Inr tri"
  shows "tri = map (\<lambda>r. if P r
                then astype_int (the (cmp_ge (t2 art)) (predict_proba (pipe_dos art) (columns X) r)) + 1
                else 0) (rows X)"
proof (cases "list_ex id (map P (rows X))")
  case False
  then have "\<forall>r \<in> set (rows X). \<not> P r" by (simp add: list_ex_mask)
  then have "map (\<lambda>r. if P r
                then astype_int (the (cmp_ge (t2 art)) (predict_proba (pipe_dos art) (columns X) r)) + 1
                else 0) (rows X) = map (\<lambda>r. 0) (rows X)"
    by (intro map_cong) auto
  moreover from False assms have "tri = replicate (length (rows X)) 0"
    by (simp add: tri_vector_def Let_def)
  ultimately show ?thesis by (simp add: map_replicate_const)
next
  case True
  with assms obtain ge2 where g: "cmp_ge (t2 art) = Some ge2"
    by (auto simp: tri_vector_def Let_def split: option.splits)
  from True assms g have "tri = scatter (map P (rows X)) (replicate (length (rows X)) 0)
      (map (\<lambda>s. astype_int (ge2 s) + 1)
         (gather (map P (rows X)) (s_dos_vector art X (map P (rows X)))))"
    by (simp add: tri_vector_def Let_def)
  also have "\<dots> = scatter (map P (rows X)) (replicate (length (rows X)) 0)
      (gather (map P (rows X))
         (map (\<lambda>r. astype_int (ge2 (predict_proba (pipe_dos art) (columns X) r)) + 1) (rows X)))"
    by (simp add: s_dos_vector_eq gather_mask_default gather_map [symmetric] comp_def)
  also have "\<dots> = map (\<lambda>r. if P r
      then astype_int (ge2 (predict_proba (pipe_dos art) (columns X) r)) + 1 else 0) (rows X)"
    by (rule scatter_gather_mask)
  finally show ?thesis by (simp add: g)
qed

lemma mask_eq:
  "map ge1 (predict_proba_all c X) = map (\<lambda>r. ge1 (predict_proba c (columns X) r)) (rows X)"
  by (simp add: predict_proba_all_def)

lemma predict_hier_success:
  assumes "predict_hier_from_df w df d = (Inr res, w')"
  obtains art X ge1 tri where
    "load_hier_artifacts w d = Inr art"
    "select_columns df (feats art) = Inr X"
    "cmp_ge (t1 art) = Some ge1"
    "tri_vector art X (map ge1 (predict_proba_all (pipe_bin art) X)) = Inr tri"
    "res = \<lparr>binary_scores = Some (predict_proba_all (pipe_bin art) X),
            binary_labels = Some (map astype_int (map ge1 (predict_proba_all (pipe_bin art) X))),
            tri_labels = Some (map IntLabel tri)\<rparr>"
    "w' = (if list_ex id (map ge1 (predict_proba_all (pipe_bin art) X))
          then call ''pipe_dos'' (mask_rows X (map ge1 (predict_proba_all (pipe_bin art) X)))
                 (call ''pipe_bin'' X w)
          else call ''pipe_bin'' X w)"
  using assms
  by (auto simp: predict_hier_from_df_def Let_def split: sum.splits option.splits)

lemma select_columns_shape:
  assumes "select_columns df fl = Inr X"
  shows "length (rows X) = length (rows df)" and "names_of fl = Some (columns X)"
  using assms by (auto simp: select_columns_def split: option.splits if_splits)

lemma classify_flow_labels:
  "(dos_vs_other_label (classify_flow mb md row) \<noteq> None
      \<longleftrightarrow> bin_label (classify_flow mb md row) = ''attack'')
   \<and> (final_label (classify_flow mb md row) = ''normal''
      \<longleftrightarrow> \<not> is_attack_label (predict mb (map fst row) (map snd row)))
   \<and> (bin_label (classify_flow mb md row) = ''attack''
      \<longleftrightarrow> is_attack_label (predict mb (map fst row) (map snd row)))"
  by (simp add: classify_flow_def Let_def)

lemma hier_labels:
  assumes run: "predict_hier_from_df w df d = (Inr res, w')"
    and art: "load_hier_artifacts w d = Inr art"
  shows "\<exists>ge1 s bl tri. cmp_ge (t1 art) = Some ge1
      \<and> binary_scores res = Some s \<and> binary_labels res = Some bl
      \<and> tri_labels res = Some (map IntLabel tri)
      \<and> length s = length (rows df) \<and> length bl = length (rows df)
      \<and> length tri = length (rows df)
      \<and> (\<forall>i < length (rows df).
            (bl ! i = 1 \<longleftrightarrow> ge1 (s ! i)) \<and> (bl ! i = 0 \<longleftrightarrow> \<not> ge1 (s ! i))
          \<and> (tri ! i \<noteq> 0 \<longleftrightarrow> bl ! i = 1)
          \<and> (final_name (IntLabel (tri ! i)) = PStr ''normal'' \<longleftrightarrow> \<not> ge1 (s ! i)))"
proof -
  from run obtain art' X ge1 tri where
    a: "load_hier_artifacts w d = Inr art'"
    and x: "select_columns df (feats art') = Inr X"
    and g: "cmp_ge (t1 art') = Some ge1"
    and t: "tri_vector art' X (map ge1 (predict_proba_all (pipe_bin art') X)) = Inr tri"
    and r: "res = \<lparr>binary_scores = Some (predict_proba_all (pipe_bin art') X),
            binary_labels = Some (map astype_int (map ge1 (predict_proba_all (pipe_bin art') X))),
            tri_labels = Some (map IntLabel tri)\<rparr>"
    by (rule predict_hier_success)
  from a art have [simp]: "art' = art" by simp
  let ?P = "\<lambda>r. ge1 (predict_proba (pipe_bin art) (columns X) r)"
  let ?s = "predict_proba_all (pipe_bin art) X"
  have n: "length (rows X) = length (rows df)"
    using x by (rule select_columns_shape)
  from t have tri: "tri = map (\<lambda>r. if ?P r
        then astype_int (the (cmp_ge (t2 art)) (predict_proba (pipe_dos art) (columns X) r)) + 1
        else 0) (rows X)"
    by (intro tri_vector_eq) (simp add: mask_eq)
  have "\<forall>i < length (rows df).
            (map astype_int (map ge1 ?s) ! i = 1 \<longleftrightarrow> ge1 (?s ! i))
          \<and> (map astype_int (map ge1 ?s) ! i = 0 \<longleftrightarrow> \<not> ge1 (?s ! i))
          \<and> (tri ! i \<noteq> 0 \<longleftrightarrow> map astype_int (map ge1 ?s) ! i = 1)
          \<and> (final_name (IntLabel (tri ! i)) = PStr ''normal'' \<longleftrightarrow> \<not> ge1 (?s ! i))"
    using n by (simp add: tri TRI_LABEL_NAMES_def predict_proba_all_def astype_int_def)
  with g r n show ?thesis
    by (intro exI [of _ ge1] exI [of _ ?s] exI [of _ "map astype_int (map ge1 ?s)"] exI [of _ tri])
      (simp add: tri predict_proba_all_def)
qed

subsection \<open>The example inputs, evaluated\<close>

lemmas load_defs = load_hier_artifacts_def load_flat_artifacts_def joblib_load_def json_load_def
  open_artifact_def load_threshold_def get_feature_list_def threshold_file_def

lemmas hier_defs = predict_hier_from_df_def predict_proba_all_def
  call_def mask_rows_def gather_def tri_vector_def s_dos_vector_def astype_int_def Let_def

lemma ex_load: "load_hier_artifacts ex_world ''models'' = Inr ex_art"
  by (simp add: load_defs ex_world_def ex_dir_def ex_art_def)

lemma half_load: "load_hier_artifacts ex_world ''half'' = Inr half_art"
  by (simp add: load_defs ex_world_def half_dir_def half_art_def)

lemma ex_select: "select_columns ex_table (feats ex_art) = Inr ex_table"
  by (simp add: select_columns_def cell_def ex_table_def ex_manifest_def feature_names_def
      ex_art_def)

lemma ex_threshold: "cmp_ge (t1 ex_art) = Some (\<lambda>s. 3 / 10 \<le> s)"
  by (simp only: ex_art_def hier_artifacts.select_convs cmp_ge.simps)

lemma half_thresholds:
  "cmp_ge (t1 half_art) = Some (\<lambda>s. 1 / 2 \<le> s)" "cmp_ge (t2 half_art) = Some (\<lambda>s. 1 / 2 \<le> s)"
  by (simp_all only: half_art_def hier_artifacts.select_convs cmp_ge.simps)

lemma ex_names: "names_of ex_manifest = Some feature_names"
  by (simp add: ex_manifest_def feature_names_def)

lemma ex_run: "predict_hier_from_df ex_world ex_table ''models'' = (Inr ex_result, ex_world_after)"
  by (simp add: ex_load ex_select ex_threshold hier_defs)
    (simp add: ex_art_def ex_table_def ex_world_def feature_names_def ex_bin_def ex_dos_def
      cell_def hier_defs ex_result_def ex_world_after_def)

lemma one_row_select:
  "names_of fl = Some feature_names \<Longrightarrow>
   select_columns (one_row_table f) fl =
     Inr \<lparr>columns = feature_names, rows = [map snd (flow_dict f)]\<rparr>"
  by (simp add: select_columns_def cell_def one_row_table_def flow_dict_def feature_names_def)

subsection \<open>The result of the coercion\<close>

lemma map2_map2: "map2 f xs (map2 g xs ys) = map2 (\<lambda>x y. f x (g x y)) xs ys"
proof (induction xs arbitrary: ys)
  case Nil
  then show ?case by simp
next
  case (Cons x xs)
  then show ?case by (cases ys) simp_all
qed

lemma map2_other: "length ys = length xs \<Longrightarrow> c \<notin> set xs \<Longrightarrow>
    map2 (\<lambda>n v. if n = c then f v else v) xs ys = ys"
proof (induction xs arbitrary: ys)
  case Nil
  then show ?case by simp
next
  case (Cons x xs)
  then show ?case by (cases ys) auto
qed

lemma columns_apply_cells: "columns (apply_cells g df) = columns df"
  by (simp add: apply_cells_def)

lemma apply_cells_twice: "apply_cells g (apply_cells h df) = apply_cells (\<lambda>n v. g n (h n v)) df"
  by (simp add: apply_cells_def map2_map2 comp_def)

lemma apply_cells_cong: "(\<And>n v. g n v = h n v) \<Longrightarrow> apply_cells g df = apply_cells h df"
  by (simp add: apply_cells_def)

lemma coerce_column_cells:
  assumes "rectangular df"
  shows "coerce_column c f df = apply_cells (\<lambda>n v. if n = c then f v else v) df"
proof (cases "c \<in> set (columns df)")
  case True
  then show ?thesis by (simp add: coerce_column_def map_column_def)
next
  case False
  have "map (\<lambda>r. map2 (\<lambda>n v. if n = c then f v else v) (columns df) r) (rows df) = rows df"
    using assms False
    by (intro map_idI map2_other) (auto simp: rectangular_def list_all_iff)
  with False show ?thesis by (simp add: coerce_column_def apply_cells_def)
qed

lemma rectangular_apply_cells: "rectangular df \<Longrightarrow> rectangular (apply_cells g df)"
  by (auto simp: rectangular_def apply_cells_def list_all_iff)

lemma coerced_frame:
  assumes "rectangular df"
  shows "coerce_column ''dur'' (\<lambda>v. fill_float (to_numeric lib v))
           (foldl (\<lambda>d c. coerce_column c (\<lambda>v. fill_int (to_numeric lib v)) d)
              (coerce_column ''service'' (astype_str lib)
                 (coerce_column ''proto'' (astype_str lib) df))
              [''spkts'', ''dpkts'', ''sbytes'', ''dbytes''])
         = apply_cells (coerce_cell lib) df"
  using assms
  apply (simp add: coerce_column_cells rectangular_apply_cells apply_cells_twice)
  apply (rule apply_cells_cong)
  apply (simp add: coerce_cell_def)
  done

lemma ensure_types_select:
  assumes "rectangular df"
  shows "ensure_types lib df fl = select_columns (apply_cells (coerce_cell lib) df) fl"
  by (simp only: ensure_types_def Let_def coerced_frame [OF assms])

lemma cell_map2:
  "length r = length cols \<Longrightarrow> n \<in> set cols \<Longrightarrow>
   cell cols (map2 g cols r) n = g n (cell cols r n)"
proof (induction cols arbitrary: r)
  case Nil
  then show ?case by simp
next
  case (Cons c cols)
  then show ?case by (cases r) (auto simp: cell_def)
qed

lemma cell_map_self: "n \<in> set ns \<Longrightarrow> cell ns (map h ns) n = h n"
  by (simp add: cell_def map_of_zip_map)

lemma ensure_types_eq:
  assumes rect: "rectangular df" and names: "names_of fl = Some ns"
  shows "ensure_types lib df fl =
    (if list_all (\<lambda>n. n \<in> set (columns df)) ns
     then Inr \<lparr>columns = ns,
               rows = map (\<lambda>r. map (\<lambda>n. coerce_cell lib n (cell (columns df) r n)) ns) (rows df)\<rparr>
     else Inl KeyError)"
proof (cases "list_all (\<lambda>n. n \<in> set (columns df)) ns")
  case False
  with names show ?thesis
    by (simp add: ensure_types_select [OF rect] select_columns_def columns_apply_cells)
next
  case True
  have "map (\<lambda>r. map (cell (columns df) (map2 (coerce_cell lib) (columns df) r)) ns) (rows df)
      = map (\<lambda>r. map (\<lambda>n. coerce_cell lib n (cell (columns df) r n)) ns) (rows df)"
  proof (intro map_cong refl)
    fix r n assume "r \<in> set (rows df)" "n \<in> set ns"
    with rect True have "length r = length (columns df)" "n \<in> set (columns df)"
      by (auto simp: rectangular_def list_all_iff)
    then show "cell (columns df) (map2 (coerce_cell lib) (columns df) r) n
        = coerce_cell lib n (cell (columns df) r n)"
      by (rule cell_map2)
  qed
  with names True show ?thesis
    by (simp add: ensure_types_select [OF rect] select_columns_def columns_apply_cells)
      (simp add: apply_cells_def comp_def)
qed

lemma astype_str_idem: "astype_str lib (astype_str lib v) = astype_str lib v"
  by (cases v) simp_all

lemma fill_int_idem: "fill_int (to_numeric lib (fill_int x)) = fill_int x"
  by (cases x) simp_all

lemma fill_float_idem: "fill_float (to_numeric lib (fill_float x)) = fill_float x"
  by (cases x) simp_all

lemma coerce_cell_idem: "coerce_cell lib n (coerce_cell lib n v) = coerce_cell lib n v"
  by (simp add: coerce_cell_def astype_str_idem fill_int_idem fill_float_idem)

lemma ensure_types_twice:
  assumes rect: "rectangular df" and names: "names_of fl = Some ns"
  shows "(case ensure_types lib df fl of Inl e \<Rightarrow> Inl e | Inr d \<Rightarrow> ensure_types lib d fl)
         = ensure_types lib df fl"
proof (cases "list_all (\<lambda>n. n \<in> set (columns df)) ns")
  case False
  then show ?thesis by (simp add: ensure_types_eq [OF rect names])
next
  case True
  let ?h = "\<lambda>r n. coerce_cell lib n (cell (columns df) r n)"
  let ?R = "\<lparr>columns = ns, rows = map (\<lambda>r. map (?h r) ns) (rows df)\<rparr>"
  have first: "ensure_types lib df fl = Inr ?R"
    using True by (simp add: ensure_types_eq [OF rect names])
  have rectR: "rectangular ?R"
    by (simp add: rectangular_def list_all_iff)
  have all: "list_all (\<lambda>n. n \<in> set (columns ?R)) ns"
    by (simp add: list_all_iff)
  have "map (\<lambda>r. map (\<lambda>n. coerce_cell lib n (cell ns r n)) ns) (map (\<lambda>r. map (?h r) ns) (rows df))
      = map (\<lambda>r. map (?h r) ns) (rows df)"
    by (simp add: comp_def cell_map_self coerce_cell_idem cong: map_cong)
  then have "ensure_types lib ?R fl = Inr ?R"
    using all by (simp add: ensure_types_eq [OF rectR names])
  with first show ?thesis by simp
qed

subsection \<open>The Suricata loop\<close>




lemma features_df_rows:
  assumes names: "names_of fl = Some ns" and seven: "length ns = 7"
    and rs: "list_all (\<lambda>r. length r = 7) rs"
  shows "features_df lib fl rs =
    Inr \<lparr>columns = ns, rows = map (\<lambda>r. map (\<lambda>n. coerce_cell lib n (cell ns r n)) ns) rs\<rparr>"
proof -
  have rect: "rectangular \<lparr>columns = ns, rows = rs\<rparr>"
    using seven rs by (simp add: rectangular_def list_all_iff)
  have df: "data_frame rs ns = Inr \<lparr>columns = ns, rows = rs\<rparr>"
    using seven rs by (simp add: data_frame_def list_all_iff)
  show ?thesis
    by (simp add: features_df_def names df ensure_types_eq [OF rect names] list_all_iff)
qed


lemma ex_features: "get_feature_list ex_world ''models'' = Inr ex_manifest"
  by (simp add: get_feature_list_def json_load_def open_artifact_def ex_world_def ex_dir_def)

subsection \<open>When the loaders return\<close>

lemma joblib_load_Inr:
  "joblib_load w d n = Inr c \<longleftrightarrow> (\<exists>dir. artifacts w d = Some dir \<and> dir n = Some (Model c))"
  by (auto simp: joblib_load_def open_artifact_def split: option.splits artifact.splits)

lemma json_load_Inr:
  "json_load w d n = Inr v \<longleftrightarrow> (\<exists>dir. artifacts w d = Some dir \<and> dir n = Some (Json v))"
  by (auto simp: json_load_def open_artifact_def split: option.splits artifact.splits)

lemma subscript_threshold_Inr:
  "subscript_threshold v = Inr t \<longleftrightarrow> (\<exists>k. v = PDict k \<and> map_of k ''threshold'' = Some t)"
  by (cases v) (auto split: option.splits)

lemma load_threshold_Inr:
  "load_threshold w d n = Inr t \<longleftrightarrow>
   (\<exists>dir k. artifacts w d = Some dir \<and> dir n = Some (Json (PDict k))
      \<and> map_of k ''threshold'' = Some t)"
proof -
  have "load_threshold w d n = Inr t \<longleftrightarrow>
      (\<exists>v. json_load w d n = Inr v \<and> subscript_threshold v = Inr t)"
    by (auto simp: load_threshold_def split: sum.splits)
  then show ?thesis
    by (auto simp: json_load_Inr subscript_threshold_Inr)
qed

lemma load_hier_Inr:
  "load_hier_artifacts w d = Inr b \<longleftrightarrow>
     joblib_load w d ''rf_bin.joblib'' = Inr (pipe_bin b)
   \<and> joblib_load w d ''rf_dos_vs_other.joblib'' = Inr (pipe_dos b)
   \<and> load_threshold w d ''bin_threshold.json'' = Inr (t1 b)
   \<and> load_threshold w d ''dos_threshold.json'' = Inr (t2 b)
   \<and> get_feature_list w d = Inr (feats b)"
  by (cases b) (auto simp: load_hier_artifacts_def split: sum.splits)

lemma load_flat_Inr:
  "load_flat_artifacts w d = Inr (pb, pt, th, fl) \<longleftrightarrow>
     joblib_load w d ''rf_bin.joblib'' = Inr pb
   \<and> joblib_load w d ''rf_tri.joblib'' = Inr pt
   \<and> load_threshold w d ''bin_threshold.json'' = Inr th
   \<and> get_feature_list w d = Inr fl"
  by (auto simp: load_flat_artifacts_def split: sum.splits)

lemma load_hier_char:
  "load_hier_artifacts w d = Inr b \<longleftrightarrow>
      (\<exists>dir k1 k2. artifacts w d = Some dir
         \<and> dir ''rf_bin.joblib'' = Some (Model (pipe_bin b))
         \<and> dir ''rf_dos_vs_other.joblib'' = Some (Model (pipe_dos b))
         \<and> dir ''bin_threshold.json'' = Some (Json (PDict k1))
         \<and> map_of k1 ''threshold'' = Some (t1 b)
         \<and> dir ''dos_threshold.json'' = Some (Json (PDict k2))
         \<and> map_of k2 ''threshold'' = Some (t2 b)
         \<and> dir ''features.json'' = Some (Json (feats b)))"
  by (auto simp: load_hier_Inr joblib_load_Inr load_threshold_Inr get_feature_list_def
      json_load_Inr)

lemma load_flat_char:
  "load_flat_artifacts w d = Inr (pb, pt, th, fl) \<longleftrightarrow>
      (\<exists>dir k. artifacts w d = Some dir
         \<and> dir ''rf_bin.joblib'' = Some (Model pb)
         \<and> dir ''rf_tri.joblib'' = Some (Model pt)
         \<and> dir ''bin_threshold.json'' = Some (Json (PDict k))
         \<and> map_of k ''threshold'' = Some th
         \<and> dir ''features.json'' = Some (Json fl))"
  by (auto simp: load_flat_Inr joblib_load_Inr load_threshold_Inr get_feature_list_def
      json_load_Inr)

subsection \<open>No step before the emptiness test exits\<close>

lemma open_artifact_error: "open_artifact w d n = Inl e \<Longrightarrow> e = FileNotFoundError"
  by (auto simp: open_artifact_def split: option.splits)

lemma json_load_no_exit: "json_load w d n \<noteq> Inl (SystemExit m)"
  by (auto simp: json_load_def split: sum.splits artifact.splits dest: open_artifact_error)

lemma joblib_load_no_exit: "joblib_load w d n \<noteq> Inl (SystemExit m)"
  by (auto simp: joblib_load_def split: sum.splits artifact.splits dest: open_artifact_error)

lemma subscript_threshold_no_exit: "subscript_threshold v \<noteq> Inl (SystemExit m)"
  by (cases v) (auto split: option.splits)

lemma load_threshold_no_exit: "load_threshold w d n \<noteq> Inl (SystemExit m)"
  by (auto simp: load_threshold_def json_load_no_exit subscript_threshold_no_exit
      split: sum.splits)

lemma get_feature_list_no_exit: "get_feature_list w d \<noteq> Inl (SystemExit m)"
  by (simp add: get_feature_list_def json_load_no_exit)

lemma select_columns_no_exit: "select_columns df fl \<noteq> Inl (SystemExit m)"
  by (auto simp: select_columns_def split: option.splits)

lemma ensure_types_no_exit: "ensure_types lib df fl \<noteq> Inl (SystemExit m)"
  by (simp add: ensure_types_def Let_def select_columns_no_exit)

lemma features_df_no_exit: "features_df lib fl rs \<noteq> Inl (SystemExit m)"
  by (auto simp: features_df_def data_frame_def ensure_types_no_exit
      split: option.splits sum.splits if_splits)

lemma eve_row_error: "eve_row v = Inl e \<Longrightarrow> e = AttributeError"
  by (cases v) (auto split: if_splits pyval.splits)

lemma eve_rows_error: "eve_rows ls = Inl e \<Longrightarrow> e = AttributeError"
  by (induction ls rule: eve_rows.induct)
    (auto split: sum.splits option.splits dest: eve_row_error)

lemma zeek_row_error: "zeek_row v = Inl e \<Longrightarrow> e = AttributeError"
  by (cases v) auto

lemma zeek_rows_error: "zeek_rows ls = Inl e \<Longrightarrow> e = AttributeError"
  by (induction ls rule: zeek_rows.induct)
    (auto split: sum.splits dest: zeek_row_error)

lemma suricata_no_exit: "suricata_eve_to_features_df lib w p d \<noteq> Inl (SystemExit m)"
  by (auto simp: suricata_eve_to_features_df_def get_feature_list_no_exit features_df_no_exit
      split: sum.splits option.splits dest: eve_rows_error)

lemma zeek_no_exit: "zeek_conn_to_features_df lib w p d \<noteq> Inl (SystemExit m)"
  by (auto simp: zeek_conn_to_features_df_def get_feature_list_no_exit features_df_no_exit
      split: sum.splits option.splits dest: zeek_rows_error)

lemma csv_no_exit: "load_features_from_csv w p d \<noteq> Inl (SystemExit m)"
  by (auto simp: load_features_from_csv_def get_feature_list_no_exit select_columns_no_exit
      split: sum.splits option.splits if_splits)

lemma load_step_no_exit: "load_step lib w a \<noteq> Inl (SystemExit m)"
  by (auto simp: load_step_def suricata_no_exit zeek_no_exit csv_no_exit
      get_feature_list_no_exit split: option.splits sum.splits)

lemma load_hier_no_exit: "load_hier_artifacts w d \<noteq> Inl (SystemExit m)"
  by (auto simp: load_hier_artifacts_def joblib_load_no_exit load_threshold_no_exit
      get_feature_list_no_exit split: sum.splits)

lemma load_flat_no_exit: "load_flat_artifacts w d \<noteq> Inl (SystemExit m)"
  by (auto simp: load_flat_artifacts_def joblib_load_no_exit load_threshold_no_exit
      get_feature_list_no_exit split: sum.splits)

lemma tri_vector_no_exit: "tri_vector art X is_mal \<noteq> Inl (SystemExit m)"
  by (auto simp: tri_vector_def Let_def split: option.splits)

lemma predict_hier_no_exit: "fst (predict_hier_from_df w df d) \<noteq> Inl (SystemExit m)"
  by (auto simp: predict_hier_from_df_def Let_def load_hier_no_exit select_columns_no_exit
      tri_vector_no_exit split: sum.splits option.splits)

lemma predict_flat_no_exit: "fst (predict_from_df w df md d) \<noteq> Inl (SystemExit m)"
  by (auto simp: predict_from_df_def Let_def load_flat_no_exit select_columns_no_exit
      split: sum.splits option.splits prod.splits if_splits)

lemma save_predictions_no_exit:
  "fst (save_predictions_csv w df out_csv md d) \<noteq> Inl (SystemExit m)"
proof -
  have "fst (if md = ''flat'' then predict_from_df w df ''both'' d
             else predict_hier_from_df w df d) \<noteq> Inl (SystemExit m)"
    by (simp add: predict_hier_no_exit predict_flat_no_exit)
  then show ?thesis
    by (auto simp: save_predictions_csv_def Let_def split: prod.splits sum.splits option.splits)
qed

subsection \<open>C1: the single-record runner against the batch runner\<close>

text \<open>
  Claim C1, as amended. Take a canonical record, a bundle whose manifest lists the seven
  canonical names and whose thresholds are numbers, and suppose that the label the
  Stage-1 classifier predicts for the record is interpreted as an attack exactly when
  its Stage-1 score is at or above t1 (the single-record runner reads the predicted
  label and no threshold). Then the batch run on the record as a table of one row
  returns, its binary label is 1 exactly when the single-record runner answers
  "attack", it gives a three-way label other than 0 exactly when the single-record
  runner gives a subtype, and its final label is "normal" exactly when the
  single-record runner's is. Nothing is said here about which subtype either runner
  names.
\<close>

theorem C1_single_record_vs_batch:
  assumes art: "load_hier_artifacts w d = Inr art"
    and man: "names_of (feats art) = Some feature_names"
    and thr1: "cmp_ge (t1 art) = Some ge1"
    and thr2: "cmp_ge (t2 art) = Some ge2"
    and agree: "is_attack_label (predict (pipe_bin art) feature_names (map snd (flow_dict f)))
                = ge1 (predict_proba (pipe_bin art) feature_names (map snd (flow_dict f)))"
  shows "\<exists>res w' t. predict_hier_from_df w (one_row_table f) d = (Inr res, w')
      \<and> binary_labels res =
          Some [astype_int (bin_label (predict_one (pipe_bin art) (pipe_dos art) f) = ''attack'')]
      \<and> tri_labels res = Some [IntLabel t]
      \<and> (t \<noteq> 0 \<longleftrightarrow> dos_vs_other_label (predict_one (pipe_bin art) (pipe_dos art) f) \<noteq> None)
      \<and> (final_name (IntLabel t) = PStr ''normal''
           \<longleftrightarrow> final_label (predict_one (pipe_bin art) (pipe_dos art) f) = ''normal'')"
proof -
  have cols: "map fst (flow_dict f) = feature_names"
    by (simp add: flow_dict_def feature_names_def)
  have sel: "select_columns (one_row_table f) (feats art) =
      Inr \<lparr>columns = feature_names, rows = [map snd (flow_dict f)]\<rparr>"
    using man by (rule one_row_select)
  show ?thesis
  proof (cases "ge1 (predict_proba (pipe_bin art) feature_names (map snd (flow_dict f)))")
    case True
    with agree art sel thr1 thr2 cols show ?thesis
      by (simp add: predict_hier_from_df_def predict_proba_all_def call_def mask_rows_def
          gather_def tri_vector_def s_dos_vector_def astype_int_def Let_def predict_one_def
          classify_flow_def TRI_LABEL_NAMES_def)
  next
    case False
    with agree art sel thr1 thr2 cols show ?thesis
      by (simp add: predict_hier_from_df_def predict_proba_all_def call_def mask_rows_def
          gather_def tri_vector_def s_dos_vector_def astype_int_def Let_def predict_one_def
          classify_flow_def TRI_LABEL_NAMES_def)
  qed
qed

theorem C1_single_record_vs_batch_witness:
  "load_hier_artifacts ex_world ''half'' = Inr half_art
   \<and> names_of (feats half_art) = Some feature_names
   \<and> cmp_ge (t1 half_art) = Some (\<lambda>s. 1 / 2 \<le> s)
   \<and> cmp_ge (t2 half_art) = Some (\<lambda>s. 1 / 2 \<le> s)
   \<and> is_attack_label (predict (pipe_bin half_art) feature_names (map snd (flow_dict ex_flow)))
       = (1 / 2 \<le> predict_proba (pipe_bin half_art) feature_names (map snd (flow_dict ex_flow)))
   \<and> (\<exists>res w' t. predict_hier_from_df ex_world (one_row_table ex_flow) ''half'' = (Inr res, w')
      \<and> binary_labels res =
          Some [astype_int (bin_label (predict_one (pipe_bin half_art) (pipe_dos half_art) ex_flow)
                  = ''attack'')]
      \<and> tri_labels res = Some [IntLabel t]
      \<and> (t \<noteq> 0 \<longleftrightarrow>
           dos_vs_other_label (predict_one (pipe_bin half_art) (pipe_dos half_art) ex_flow) \<noteq> None)
      \<and> (final_name (IntLabel t) = PStr ''normal''
           \<longleftrightarrow> final_label (predict_one (pipe_bin half_art) (pipe_dos half_art) ex_flow)
                 = ''normal''))"
proof -
  have man: "names_of (feats half_art) = Some feature_names"
    by (simp add: half_art_def ex_names)
  have agree: "is_attack_label (predict (pipe_bin half_art) feature_names (map snd (flow_dict ex_flow)))
       = (1 / 2 \<le> predict_proba (pipe_bin half_art) feature_names (map snd (flow_dict ex_flow)))"
    by (simp add: half_art_def ex_half_def)
  show ?thesis
    by (intro conjI half_load man half_thresholds agree
        C1_single_record_vs_batch [OF half_load man half_thresholds agree])
qed

text \<open>
  As stated the claim fails. The Stage-1 double scores the record 0.4 and predicts
  class 0, the more probable one; the deployment threshold is 0.3. The single-record
  runner answers normal, the batch runner attack with final label "dos".
\<close>

theorem C1_counterexample:
  "predict_one ex_bin ex_dos ex_flow =
       \<lparr>bin_label = ''normal'', dos_vs_other_label = None, final_label = ''normal''\<rparr>
   \<and> load_hier_artifacts ex_world ''models'' = Inr ex_art
   \<and> pipe_bin ex_art = ex_bin \<and> pipe_dos ex_art = ex_dos
   \<and> fst (predict_hier_from_df ex_world (one_row_table ex_flow) ''models'') =
       Inr \<lparr>binary_scores = Some [2 / 5], binary_labels = Some [1],
            tri_labels = Some [IntLabel 1]\<rparr>
   \<and> final_name (IntLabel 1) = PStr ''dos''"
proof -
  have sel: "select_columns (one_row_table ex_flow) (feats ex_art) =
      Inr \<lparr>columns = feature_names, rows = [map snd (flow_dict ex_flow)]\<rparr>"
    by (rule one_row_select) (simp add: ex_art_def ex_names)
  have batch: "fst (predict_hier_from_df ex_world (one_row_table ex_flow) ''models'') =
       Inr \<lparr>binary_scores = Some [2 / 5], binary_labels = Some [1],
            tri_labels = Some [IntLabel 1]\<rparr>"
    by (simp add: ex_load sel ex_threshold hier_defs)
      (simp add: ex_art_def flow_dict_def ex_flow_def feature_names_def ex_bin_def ex_dos_def
        cell_def hier_defs)
  have server: "predict_one ex_bin ex_dos ex_flow =
      \<lparr>bin_label = ''normal'', dos_vs_other_label = None, final_label = ''normal''\<rparr>"
    by (simp add: predict_one_def classify_flow_def Let_def flow_dict_def ex_flow_def ex_bin_def
        cell_def)
  show ?thesis
    by (simp add: server batch ex_load TRI_LABEL_NAMES_def) (simp add: ex_art_def)
qed

subsection \<open>C2: the artifact bundle loader\<close>

text \<open>
  Claim C2, as amended. In either mode the loader returns a bundle exactly when the
  directory exists, each required classifier file is present and holds a classifier,
  each required threshold file is present and holds a JSON object with a "threshold"
  entry, and the manifest file is present and holds JSON; the bundle then holds the
  classifiers, the "threshold" entries and the manifest as they are in the files. In
  every other case it fails and no bundle is produced: in particular it fails with
  FileNotFoundError when the directory does not exist, and it fails when a required
  file is absent. It does not check that a threshold is a number in [0,1] nor that
  the manifest is not empty.
\<close>

theorem C2_loader_all_or_nothing:
  "(load_hier_artifacts w d = Inr b \<longleftrightarrow>
      (\<exists>dir k1 k2. artifacts w d = Some dir
         \<and> dir ''rf_bin.joblib'' = Some (Model (pipe_bin b))
         \<and> dir ''rf_dos_vs_other.joblib'' = Some (Model (pipe_dos b))
         \<and> dir ''bin_threshold.json'' = Some (Json (PDict k1))
         \<and> map_of k1 ''threshold'' = Some (t1 b)
         \<and> dir ''dos_threshold.json'' = Some (Json (PDict k2))
         \<and> map_of k2 ''threshold'' = Some (t2 b)
         \<and> dir ''features.json'' = Some (Json (feats b))))
   \<and> (load_flat_artifacts w d = Inr (pb, pt, th, fl) \<longleftrightarrow>
      (\<exists>dir k. artifacts w d = Some dir
         \<and> dir ''rf_bin.joblib'' = Some (Model pb)
         \<and> dir ''rf_tri.joblib'' = Some (Model pt)
         \<and> dir ''bin_threshold.json'' = Some (Json (PDict k))
         \<and> map_of k ''threshold'' = Some th
         \<and> dir ''features.json'' = Some (Json fl)))
   \<and> (artifacts w d = None \<longrightarrow>
        load_hier_artifacts w d = Inl FileNotFoundError
      \<and> load_flat_artifacts w d = Inl FileNotFoundError)
   \<and> (artifacts w d = Some files
        \<and> (files ''rf_bin.joblib'' = None \<or> files ''rf_dos_vs_other.joblib'' = None
           \<or> files ''bin_threshold.json'' = None \<or> files ''dos_threshold.json'' = None
           \<or> files ''features.json'' = None)
        \<longrightarrow> isl (load_hier_artifacts w d))
   \<and> (artifacts w d = Some files
        \<and> (files ''rf_bin.joblib'' = None \<or> files ''rf_tri.joblib'' = None
           \<or> files ''bin_threshold.json'' = None \<or> files ''features.json'' = None)
        \<longrightarrow> isl (load_flat_artifacts w d))"
proof (intro conjI impI)
  show "load_hier_artifacts w d = Inr b \<longleftrightarrow>
      (\<exists>dir k1 k2. artifacts w d = Some dir
         \<and> dir ''rf_bin.joblib'' = Some (Model (pipe_bin b))
         \<and> dir ''rf_dos_vs_other.joblib'' = Some (Model (pipe_dos b))
         \<and> dir ''bin_threshold.json'' = Some (Json (PDict k1))
         \<and> map_of k1 ''threshold'' = Some (t1 b)
         \<and> dir ''dos_threshold.json'' = Some (Json (PDict k2))
         \<and> map_of k2 ''threshold'' = Some (t2 b)
         \<and> dir ''features.json'' = Some (Json (feats b)))"
    by (rule load_hier_char)
  show "load_flat_artifacts w d = Inr (pb, pt, th, fl) \<longleftrightarrow>
      (\<exists>dir k. artifacts w d = Some dir
         \<and> dir ''rf_bin.joblib'' = Some (Model pb)
         \<and> dir ''rf_tri.joblib'' = Some (Model pt)
         \<and> dir ''bin_threshold.json'' = Some (Json (PDict k))
         \<and> map_of k ''threshold'' = Some th
         \<and> dir ''features.json'' = Some (Json fl))"
    by (rule load_flat_char)
next
  assume "artifacts w d = None"
  then show "load_hier_artifacts w d = Inl FileNotFoundError"
    by (simp add: load_hier_artifacts_def joblib_load_def open_artifact_def)
next
  assume "artifacts w d = None"
  then show "load_flat_artifacts w d = Inl FileNotFoundError"
    by (simp add: load_flat_artifacts_def joblib_load_def open_artifact_def)
next
  assume absent: "artifacts w d = Some files
        \<and> (files ''rf_bin.joblib'' = None \<or> files ''rf_dos_vs_other.joblib'' = None
           \<or> files ''bin_threshold.json'' = None \<or> files ''dos_threshold.json'' = None
           \<or> files ''features.json'' = None)"
  show "isl (load_hier_artifacts w d)"
  proof (cases "load_hier_artifacts w d")
    case (Inl e)
    then show ?thesis by simp
  next
    case (Inr b')
    with absent show ?thesis by (auto simp: load_hier_char)
  qed
next
  assume absent: "artifacts w d = Some files
        \<and> (files ''rf_bin.joblib'' = None \<or> files ''rf_tri.joblib'' = None
           \<or> files ''bin_threshold.json'' = None \<or> files ''features.json'' = None)"
  show "isl (load_flat_artifacts w d)"
  proof (cases "load_flat_artifacts w d")
    case (Inl e)
    then show ?thesis by simp
  next
    case (Inr t)
    obtain pb' pt' th' fl' where "t = (pb', pt', th', fl')"
      by (cases t) auto
    with Inr absent show ?thesis by (auto simp: load_flat_char)
  qed
qed

theorem C2_loader_all_or_nothing_witness:
  "artifacts ex_world ''nowhere'' = None
   \<and> load_hier_artifacts ex_world ''nowhere'' = Inl FileNotFoundError
   \<and> load_flat_artifacts ex_world ''nowhere'' = Inl FileNotFoundError
   \<and> artifacts ex_world ''half'' = Some half_dir
   \<and> half_dir ''rf_tri.joblib'' = None
   \<and> isl (load_flat_artifacts ex_world ''half'')
   \<and> load_hier_artifacts ex_world ''models'' = Inr ex_art"
proof -
  have h: "artifacts ex_world ''nowhere'' = None"
    by (simp add: ex_world_def)
  have g: "artifacts ex_world ''half'' = Some half_dir" "half_dir ''rf_tri.joblib'' = None"
    by (simp_all add: ex_world_def half_dir_def)
  note c = C2_loader_all_or_nothing [of ex_world "''nowhere''" ex_art ex_bin ex_dos PNone PNone
      half_dir]
  note e = C2_loader_all_or_nothing [of ex_world "''models''" ex_art ex_bin ex_dos PNone PNone
      half_dir]
  note f = C2_loader_all_or_nothing [of ex_world "''half''" ex_art ex_bin ex_dos PNone PNone
      half_dir]
  have "load_hier_artifacts ex_world ''models'' = Inr ex_art"
    using e by (simp add: ex_world_def ex_dir_def ex_art_def threshold_file_def)
  moreover have "isl (load_flat_artifacts ex_world ''half'')"
    using f g by simp
  ultimately show ?thesis
    using c h g by simp
qed

text \<open>
  As stated the claim fails: with a threshold of 7, a threshold that is the text
  "high" and an empty manifest, both loaders return a bundle.
\<close>

theorem C2_counterexample:
  "load_hier_artifacts ex_world ''odd'' =
     Inr \<lparr>pipe_bin = ex_bin, pipe_dos = ex_dos, t1 = PInt 7, t2 = PStr ''high'',
          feats = PList []\<rparr>
   \<and> load_flat_artifacts ex_world ''odd'' = Inr (ex_bin, ex_dos, PInt 7, PList [])"
  by (simp add: load_defs ex_world_def odd_dir_def)

subsection \<open>C3: what the coercion makes of a row\<close>




subsection \<open>C4: raw labels that are not recognised\<close>

text \<open>
  Claim C4, as amended. For a raw classifier output that is none of the recognised
  representations (integer 0 or 1, text "normal", text "dos"): the Stage-1 interpretation
  flags it attack exactly when it is not an integer and its lower-cased text is not
  "normal", so an unknown integer is flagged normal; the Stage-2 interpretation flags it
  dos only when it is text that lower-cases to "dos", and other_attack in every other
  case. The fallback to the positive class exists for Stage-1 text only.
\<close>

theorem C4_unknown_outputs:
  assumes "raw \<notin> {IntLabel 0, IntLabel 1, StrLabel ''normal'', StrLabel ''dos''}"
  shows "(is_attack_label raw \<longleftrightarrow> (\<exists>s. raw = StrLabel s \<and> lower s \<noteq> ''normal''))
       \<and> (is_dos_label raw \<longleftrightarrow> (\<exists>s. raw = StrLabel s \<and> lower s = ''dos''))"
  using assms by (cases raw) auto

theorem C4_unknown_outputs_witness:
  "StrLabel ''DoS'' \<notin> {IntLabel 0, IntLabel 1, StrLabel ''normal'', StrLabel ''dos''}
   \<and> is_attack_label (StrLabel ''DoS'') \<and> is_dos_label (StrLabel ''DoS'')"
proof -
  have h: "StrLabel ''DoS'' \<notin> {IntLabel 0, IntLabel 1, StrLabel ''normal'', StrLabel ''dos''}"
    by simp
  from C4_unknown_outputs [OF h] h show ?thesis
    by (simp add: lower_def lower_char_def)
qed

text \<open>
  As stated the claim fails: the integer 2 is not flagged attack by Stage 1, and neither
  the integer 2 nor an unknown text is flagged dos by Stage 2.
\<close>

theorem C4_counterexample:
  "\<not> is_attack_label (IntLabel 2) \<and> \<not> is_dos_label (StrLabel ''unrecognised'')
   \<and> \<not> is_dos_label (IntLabel 2)"
  by (simp add: lower_def lower_char_def)

subsection \<open>C5: a score equal to the threshold\<close>

text \<open>
  Claim C5, evaluated on the code. Both thresholds are 0.5 and both classifiers score
  the record exactly 0.5. Stage 1 is inclusive: the binary label is 1. In Stage 2 the
  comparison is inclusive too, but line 146 adds 1 to its truth value, so a score at
  or above t2 gives the three-way label 2, which \<^verbatim>\<open>TRI_LABEL_NAMES\<close> names
  "other_attack", and a score below t2 gives 1, "dos".
\<close>

theorem C5_threshold_tie_on_code:
  "fst (predict_hier_from_df ex_world (one_row_table ex_flow) ''half'') =
     Inr \<lparr>binary_scores = Some [1 / 2], binary_labels = Some [1],
          tri_labels = Some [IntLabel 2]\<rparr>
   \<and> fst (save_predictions_csv ex_world (one_row_table ex_flow) ''out.csv'' ''hier'' ''half'') =
     Inr \<lparr>columns = [''proto'', ''service'', ''spkts'', ''dpkts'', ''sbytes'', ''dbytes'', ''dur'',
                     ''bin_prob_mal'', ''bin_label'', ''tri_label'', ''final_label''],
          rows = [[PStr ''tcp'', PStr ''http'', PInt 10, PInt 8, PInt 1500, PInt 2000,
                   PFloat (45 / 100), PFloat (1 / 2), PInt 1, PInt 2, PStr ''other_attack'']]\<rparr>"
proof -
  have sel: "select_columns (one_row_table ex_flow) (feats half_art) =
      Inr \<lparr>columns = feature_names, rows = [map snd (flow_dict ex_flow)]\<rparr>"
    by (rule one_row_select) (simp add: half_art_def ex_names)
  have run: "predict_hier_from_df ex_world (one_row_table ex_flow) ''half'' =
     (Inr \<lparr>binary_scores = Some [1 / 2], binary_labels = Some [1],
          tri_labels = Some [IntLabel 2]\<rparr>,
      call ''pipe_dos'' \<lparr>columns = feature_names, rows = [map snd (flow_dict ex_flow)]\<rparr>
        (call ''pipe_bin'' \<lparr>columns = feature_names, rows = [map snd (flow_dict ex_flow)]\<rparr>
           ex_world))"
    by (simp add: half_load sel half_thresholds predict_hier_from_df_def predict_proba_all_def
        mask_rows_def gather_def tri_vector_def s_dos_vector_def astype_int_def Let_def)
      (simp add: half_art_def ex_half_def mask_rows_def gather_def astype_int_def)
  show ?thesis
    by (simp add: run save_predictions_csv_def set_column_def TRI_LABEL_NAMES_def)
      (simp add: one_row_table_def flow_dict_def ex_flow_def Let_def feature_names_def)
qed

subsection \<open>C6: Stage 2 sees the malicious rows only\<close>

text \<open>
  Claim C6. In a hierarchical batch run that returns, the classifier calls are one call
  of the Stage-1 classifier on the whole table and, when some row scores at or above
  the threshold, one call of the Stage-2 classifier on the table restricted to exactly
  the rows whose Stage-1 score is at or above the threshold (no Stage-2 call
  otherwise). For every row gated non-malicious the full-length Stage-2 score vector
  (which the code builds when some row is malicious) holds the default 0, the
  three-way label is 0 and the final label is "normal".
\<close>

theorem C6_stage2_only_on_malicious:
  fixes art :: hier_artifacts and X :: frame and ge1 :: "real \<Rightarrow> bool"
  defines "mal \<equiv> \<lambda>r. ge1 (predict_proba (pipe_bin art) (columns X) r)"
  assumes run: "predict_hier_from_df w df d = (Inr res, w')"
    and art: "load_hier_artifacts w d = Inr art"
    and sel: "select_columns df (feats art) = Inr X"
    and thr: "cmp_ge (t1 art) = Some ge1"
  shows "invoked w' = invoked w @ (''pipe_bin'', X) #
           (if \<exists>r \<in> set (rows X). mal r
            then [(''pipe_dos'', X\<lparr>rows := filter mal (rows X)\<rparr>)] else [])
       \<and> (\<exists>tri. tri_labels res = Some (map IntLabel tri) \<and> length tri = length (rows X)
            \<and> (\<forall>i < length (rows X). \<not> mal (rows X ! i) \<longrightarrow>
                  s_dos_vector art X (map mal (rows X)) ! i = 0
                \<and> tri ! i = 0
                \<and> final_name (IntLabel (tri ! i)) = PStr ''normal''))"
proof -
  from run obtain art' X' ge1' tri where
    a: "load_hier_artifacts w d = Inr art'"
    and x: "select_columns df (feats art') = Inr X'"
    and g: "cmp_ge (t1 art') = Some ge1'"
    and t: "tri_vector art' X' (map ge1' (predict_proba_all (pipe_bin art') X')) = Inr tri"
    and r: "res = \<lparr>binary_scores = Some (predict_proba_all (pipe_bin art') X'),
            binary_labels = Some (map astype_int (map ge1' (predict_proba_all (pipe_bin art') X'))),
            tri_labels = Some (map IntLabel tri)\<rparr>"
    and w': "w' = (if list_ex id (map ge1' (predict_proba_all (pipe_bin art') X'))
          then call ''pipe_dos'' (mask_rows X' (map ge1' (predict_proba_all (pipe_bin art') X')))
                 (call ''pipe_bin'' X' w)
          else call ''pipe_bin'' X' w)"
    by (rule predict_hier_success)
  from a art have [simp]: "art' = art" by simp
  from x sel have [simp]: "X' = X" by simp
  from g thr have [simp]: "ge1' = ge1" by simp
  have m: "map ge1 (predict_proba_all (pipe_bin art) X) = map mal (rows X)"
    by (simp add: mask_eq mal_def)
  from t have tri: "tri = map (\<lambda>r. if mal r
        then astype_int (the (cmp_ge (t2 art)) (predict_proba (pipe_dos art) (columns X) r)) + 1
        else 0) (rows X)"
    by (intro tri_vector_eq) (simp add: m)
  have calls: "invoked w' = invoked w @ (''pipe_bin'', X) #
           (if \<exists>r \<in> set (rows X). mal r
            then [(''pipe_dos'', X\<lparr>rows := filter mal (rows X)\<rparr>)] else [])"
    by (simp add: w' m list_ex_mask call_def mask_rows_def gather_mask_filter)
  have len: "length tri = length (rows X)"
    by (simp add: tri)
  have zero: "\<forall>i < length (rows X). \<not> mal (rows X ! i) \<longrightarrow>
                  s_dos_vector art X (map mal (rows X)) ! i = 0
                \<and> tri ! i = 0
                \<and> final_name (IntLabel (tri ! i)) = PStr ''normal''"
    by (simp add: s_dos_vector_eq tri TRI_LABEL_NAMES_def)
  have "tri_labels res = Some (map IntLabel tri)"
    by (simp add: r)
  with calls len zero show ?thesis by blast
qed

theorem C6_stage2_only_on_malicious_witness:
  "predict_hier_from_df ex_world ex_table ''models'' = (Inr ex_result, ex_world_after)
   \<and> load_hier_artifacts ex_world ''models'' = Inr ex_art
   \<and> select_columns ex_table (feats ex_art) = Inr ex_table
   \<and> cmp_ge (t1 ex_art) = Some (\<lambda>s. 3 / 10 \<le> s)
   \<and> invoked ex_world_after = invoked ex_world @ (''pipe_bin'', ex_table) #
        (if \<exists>r \<in> set (rows ex_table).
              3 / 10 \<le> predict_proba (pipe_bin ex_art) (columns ex_table) r
         then [(''pipe_dos'', ex_table\<lparr>rows :=
                  filter (\<lambda>r. 3 / 10 \<le> predict_proba (pipe_bin ex_art) (columns ex_table) r)
                    (rows ex_table)\<rparr>)]
         else [])
   \<and> (\<exists>tri. tri_labels ex_result = Some (map IntLabel tri)
        \<and> length tri = length (rows ex_table)
        \<and> (\<forall>i < length (rows ex_table).
              \<not> 3 / 10 \<le> predict_proba (pipe_bin ex_art) (columns ex_table) (rows ex_table ! i) \<longrightarrow>
                s_dos_vector ex_art ex_table
                  (map (\<lambda>r. 3 / 10 \<le> predict_proba (pipe_bin ex_art) (columns ex_table) r)
                     (rows ex_table)) ! i = 0
              \<and> tri ! i = 0
              \<and> final_name (IntLabel (tri ! i)) = PStr ''normal''))"
  by (intro conjI ex_run ex_load ex_select ex_threshold
      conjunct1 [OF C6_stage2_only_on_malicious [OF ex_run ex_load ex_select ex_threshold]]
      conjunct2 [OF C6_stage2_only_on_malicious [OF ex_run ex_load ex_select ex_threshold]])

subsection \<open>C7: a subtype exactly for attacks\<close>

text \<open>
  Claim C7. In hierarchical mode, for every row of a batch run that returns, the
  three-way label is not 0 (normal) if and only if the binary label is 1 (attack), and
  the final label is "normal" exactly when the Stage-1 comparison with the threshold is
  negative; in the single-record runner \<^verbatim>\<open>dos_vs_other_label\<close> is not null if and only
  if \<^verbatim>\<open>bin_label\<close> is "attack", and \<^verbatim>\<open>final_label\<close> is "normal" exactly when the
  Stage-1 label is not interpreted as an attack.
\<close>

theorem C7_subtype_defined_iff_attack:
  assumes "predict_hier_from_df w df d = (Inr res, w')"
    and "load_hier_artifacts w d = Inr art"
  shows "(\<exists>ge1 s bl tri. cmp_ge (t1 art) = Some ge1
      \<and> binary_scores res = Some s \<and> binary_labels res = Some bl
      \<and> tri_labels res = Some (map IntLabel tri)
      \<and> length s = length (rows df) \<and> length bl = length (rows df)
      \<and> length tri = length (rows df)
      \<and> (\<forall>i < length (rows df).
            (bl ! i = 1 \<longleftrightarrow> ge1 (s ! i)) \<and> (bl ! i = 0 \<longleftrightarrow> \<not> ge1 (s ! i))
          \<and> (tri ! i \<noteq> 0 \<longleftrightarrow> bl ! i = 1)
          \<and> (final_name (IntLabel (tri ! i)) = PStr ''normal'' \<longleftrightarrow> \<not> ge1 (s ! i))))
    \<and> (dos_vs_other_label (classify_flow mb md row) \<noteq> None
          \<longleftrightarrow> bin_label (classify_flow mb md row) = ''attack'')
    \<and> (final_label (classify_flow mb md row) = ''normal''
          \<longleftrightarrow> \<not> is_attack_label (predict mb (map fst row) (map snd row)))
    \<and> (bin_label (classify_flow mb md row) = ''attack''
          \<longleftrightarrow> is_attack_label (predict mb (map fst row) (map snd row)))"
  using hier_labels [OF assms] classify_flow_labels [of mb md row] by blast

theorem C7_subtype_defined_iff_attack_witness:
  "predict_hier_from_df ex_world ex_table ''models'' = (Inr ex_result, ex_world_after)
   \<and> load_hier_artifacts ex_world ''models'' = Inr ex_art
   \<and> (\<exists>ge1 s bl tri. cmp_ge (t1 ex_art) = Some ge1
      \<and> binary_scores ex_result = Some s \<and> binary_labels ex_result = Some bl
      \<and> tri_labels ex_result = Some (map IntLabel tri)
      \<and> length s = length (rows ex_table) \<and> length bl = length (rows ex_table)
      \<and> length tri = length (rows ex_table)
      \<and> (\<forall>i < length (rows ex_table).
            (bl ! i = 1 \<longleftrightarrow> ge1 (s ! i)) \<and> (bl ! i = 0 \<longleftrightarrow> \<not> ge1 (s ! i))
          \<and> (tri ! i \<noteq> 0 \<longleftrightarrow> bl ! i = 1)
          \<and> (final_name (IntLabel (tri ! i)) = PStr ''normal'' \<longleftrightarrow> \<not> ge1 (s ! i))))
   \<and> (dos_vs_other_label (classify_flow ex_bin ex_dos (flow_dict ex_flow)) \<noteq> None
          \<longleftrightarrow> bin_label (classify_flow ex_bin ex_dos (flow_dict ex_flow)) = ''attack'')
   \<and> (final_label (classify_flow ex_bin ex_dos (flow_dict ex_flow)) = ''normal''
          \<longleftrightarrow> \<not> is_attack_label (predict ex_bin (map fst (flow_dict ex_flow))
                  (map snd (flow_dict ex_flow))))
   \<and> (bin_label (classify_flow ex_bin ex_dos (flow_dict ex_flow)) = ''attack''
          \<longleftrightarrow> is_attack_label (predict ex_bin (map fst (flow_dict ex_flow))
                (map snd (flow_dict ex_flow))))"
  by (rule conjI [OF ex_run conjI [OF ex_load C7_subtype_defined_iff_attack [OF ex_run ex_load]]])

subsection \<open>C8: coercion is idempotent\<close>

text \<open>
  Claim C8. For every table whose rows have one cell per column and every manifest that
  is a list of names, applying the coercion step to its own result gives that result
  again (and when the first application raises, for a manifest column the table lacks,
  so does the composition). Column names are taken to be distinct, in the table and in
  the manifest: only then does pandas hand the conversions single columns.
\<close>

theorem C8_coercion_idempotent:
  assumes "rectangular df" and "distinct (columns df)"
    and "names_of fl = Some ns" and "distinct ns"
  shows "(case ensure_types lib df fl of Inl e \<Rightarrow> Inl e | Inr d \<Rightarrow> ensure_types lib d fl)
         = ensure_types lib df fl"
  using assms(1,3) by (rule ensure_types_twice)

theorem C8_coercion_idempotent_witness:
  "rectangular raw_table \<and> distinct (columns raw_table)
   \<and> names_of ex_manifest = Some feature_names \<and> distinct feature_names
   \<and> ensure_types ex_lib raw_table ex_manifest = Inr coerced_table
   \<and> ensure_types ex_lib coerced_table ex_manifest = Inr coerced_table"
proof -
  have r: "rectangular raw_table"
    by (simp add: rectangular_def raw_table_def feature_names_def)
  have d: "distinct (columns raw_table)"
    by (simp add: raw_table_def feature_names_def)
  have d': "distinct feature_names"
    by (simp add: feature_names_def)
  have first: "ensure_types ex_lib raw_table ex_manifest = Inr coerced_table"
    by (simp add: ensure_types_eq [OF r ex_names])
      (simp add: raw_table_def coerced_table_def feature_names_def cell_def coerce_cell_def
        ex_lib_def str_int_def digits10.simps digit_char_def int_of_float_def)
  from C8_coercion_idempotent [OF r d ex_names d', of ex_lib] first
  have "ensure_types ex_lib coerced_table ex_manifest = Inr coerced_table"
    by simp
  with r d d' first show ?thesis
    by (simp add: ex_names)
qed

subsection \<open>C9: the Suricata EVE adapter\<close>




subsection \<open>C10: an empty feature table\<close>

text \<open>
  Claim C10. If the adapter chosen by the command line returns a table with no rows,
  the tool ends with the exit "[ERROR] No flows found to classify." and leaves the
  world as it was: no classifier has been invoked and no file has been written. The
  exit is distinct from every other failure: whenever the tool ends with a SystemExit,
  the adapter had returned an empty table and the world is unchanged.
\<close>

theorem C10_empty_table_fails_first:
  "(load_step lib w a = Inr df \<and> rows df = [] \<longrightarrow>
      main lib w a = (Inl (SystemExit ''[ERROR] No flows found to classify.''), w))
   \<and> (fst (main lib w a) = Inl (SystemExit m) \<longrightarrow>
        snd (main lib w a) = w \<and> (\<exists>df'. load_step lib w a = Inr df' \<and> frame_empty df'))"
proof (intro conjI impI)
  assume "load_step lib w a = Inr df \<and> rows df = []"
  then show "main lib w a = (Inl (SystemExit ''[ERROR] No flows found to classify.''), w)"
    by (simp add: main_def frame_empty_def)
next
  assume exit: "fst (main lib w a) = Inl (SystemExit m)"
  show "snd (main lib w a) = w"
  proof (cases "load_step lib w a")
    case (Inl e)
    then show ?thesis by (simp add: main_def)
  next
    case (Inr df')
    with exit have "frame_empty df'"
      using save_predictions_no_exit [of w df' "out a" _ "models a" m]
      by (auto simp: main_def split: if_splits)
    with Inr show ?thesis by (simp add: main_def)
  qed
  show "\<exists>df'. load_step lib w a = Inr df' \<and> frame_empty df'"
  proof (cases "load_step lib w a")
    case (Inl e)
    with exit show ?thesis
      using load_step_no_exit [of lib w a m] by (simp add: main_def)
  next
    case (Inr df')
    with exit show ?thesis
      using save_predictions_no_exit [of w df' "out a" _ "models a" m]
      by (auto simp: main_def split: if_splits)
  qed
qed

theorem C10_empty_table_fails_first_witness:
  "load_step ex_lib ex_world ex_args = Inr \<lparr>columns = feature_names, rows = []\<rparr>
   \<and> rows \<lparr>columns = feature_names, rows = []\<rparr> = []
   \<and> main ex_lib ex_world ex_args =
       (Inl (SystemExit ''[ERROR] No flows found to classify.''), ex_world)
   \<and> invoked ex_world = [] \<and> written ex_world = []"
proof -
  have feat: "features_df ex_lib ex_manifest [] = Inr \<lparr>columns = feature_names, rows = []\<rparr>"
    by (rule trans [OF features_df_rows [OF ex_names]]) (simp_all add: feature_names_def)
  have load: "load_step ex_lib ex_world ex_args = Inr \<lparr>columns = feature_names, rows = []\<rparr>"
    by (simp add: load_step_def given_def ex_args_def suricata_eve_to_features_df_def
        ex_features feat)
      (simp add: ex_world_def dns_event_def dict_get_def feat)
  have empty: "rows \<lparr>columns = feature_names, rows = []\<rparr> = []"
    by simp
  from C10_empty_table_fails_first [of ex_lib ex_world ex_args
      "\<lparr>columns = feature_names, rows = []\<rparr>" "[]"] load empty
  have "main ex_lib ex_world ex_args =
       (Inl (SystemExit ''[ERROR] No flows found to classify.''), ex_world)"
    by simp
  with load show ?thesis
    by (simp add: ex_world_def)
qed

end
